theory Spec2Isabelle
  imports Complex_Main "HOL-Library.Word" "HOL-Library.Sublist"
begin

section \<open>JavaScript strings and values\<close>

text \<open>
  A JavaScript string is a sequence of UTF-16 code units and \<open>length\<close> counts code
  units, so strings are lists of 16-bit words. \<open>lit\<close> embeds an ASCII literal of the
  source.
\<close>

type_synonym jsstring = "16 word list"

definition lit :: "string \<Rightarrow> jsstring" where
  "lit s = map of_char s"

text \<open>
  \<open>String.prototype.trim\<close> strips the code units that ECMAScript calls WhiteSpace or
  LineTerminator from both ends.
\<close>

definition isWhiteSpace :: "16 word \<Rightarrow> bool" where
  "isWhiteSpace c \<longleftrightarrow>
     c \<in> set [0x0009, 0x000A, 0x000B, 0x000C, 0x000D, 0x0020, 0x00A0, 0x1680,
               0x2028, 0x2029, 0x202F, 0x205F, 0x3000, 0xFEFF]
     \<or> (0x2000 \<le> c \<and> c \<le> 0x200A)"

definition trim :: "jsstring \<Rightarrow> jsstring" where
  "trim s = rev (dropWhile isWhiteSpace (rev (dropWhile isWhiteSpace s)))"

text \<open>\<open>String.prototype.includes\<close>: the argument occurs as a contiguous run.\<close>

fun str_includes :: "jsstring \<Rightarrow> jsstring \<Rightarrow> bool" where
  "str_includes [] sub = (sub = [])"
| "str_includes (c # cs) sub = (prefix sub (c # cs) \<or> str_includes cs sub)"

text \<open>\<open>Array.prototype.join\<close> on an array of strings.\<close>

fun join :: "jsstring \<Rightarrow> jsstring list \<Rightarrow> jsstring" where
  "join sep [] = []"
| "join sep [s] = s"
| "join sep (s # t # ss) = s @ sep @ join sep (t # ss)"

text \<open>\<open>a || b\<close> on strings: the empty string is falsy.\<close>

definition or_else :: "jsstring \<Rightarrow> jsstring \<Rightarrow> jsstring" where
  "or_else a b = (if a = [] then b else a)"

text \<open>
  The value \<open>JSON.parse\<close> yields. A number is a double that came out of a JSON text:
  a finite rational or an infinity (an overflowing exponent), never NaN. An object is
  the list of its own properties.
\<close>

datatype jsnumber = Finite rat | PosInfinity | NegInfinity

datatype jsvalue =
    JNull
  | JBool bool
  | JNum jsnumber
  | JStr jsstring
  | JArr "jsvalue list"
  | JObj "(jsstring \<times> jsvalue) list"

text \<open>\<open>!body\<close> is \<open>\<not> truthy body\<close>.\<close>

fun truthy :: "jsvalue \<Rightarrow> bool" where
  "truthy JNull = False"
| "truthy (JBool b) = b"
| "truthy (JNum n) = (n \<noteq> Finite 0)"
| "truthy (JStr s) = (s \<noteq> [])"
| "truthy (JArr vs) = True"
| "truthy (JObj kvs) = True"

text \<open>Reading a property of a parsed object; \<open>None\<close> is \<open>undefined\<close>.\<close>

definition property :: "(jsstring \<times> jsvalue) list \<Rightarrow> string \<Rightarrow> jsvalue option" where
  "property kvs k = map_of kvs (lit k)"

text \<open>
  What \<open>fetch\<close>, \<open>response.json()\<close> and \<open>new Error\<close> throw on the client: an \<open>Error\<close>
  with a string message and its stack, or another value, given by what \<open>String(error)\<close>
  makes of it.
\<close>

datatype thrown =
    JsError (error_message: jsstring) (error_stack: "jsstring option")
  | NonError (stringified: jsstring)

type_synonym date = int


section \<open>lib/schemas/image-generation.ts\<close>

datatype zod_expected = ExpectedObject | ExpectedString

datatype ZodIssue = ZodIssue (issue_path: "string list") (issue_message: jsstring)

text \<open>
  The text of Zod's built-in type error is the library's, not the repository's: it is a
  parameter, from the expected type and the value received (\<open>None\<close> for \<open>undefined\<close>).
\<close>

type_synonym type_error_message = "zod_expected \<Rightarrow> jsvalue option \<Rightarrow> jsstring"

definition default_model :: jsstring where
  "default_model = lit ''gemini-2.5-flash-image-preview''"

text \<open>
  \<open>z.string().min(1, ...).max(1000, ...).trim()\<close>: Zod runs a string's checks in the
  order they are declared, each on the current value, so both length checks see the
  untrimmed string and \<open>trim\<close> only rewrites the output.
\<close>

fun parse_prompt :: "type_error_message \<Rightarrow> jsvalue option \<Rightarrow> ZodIssue list + jsstring" where
  "parse_prompt tm (Some (JStr s)) =
     (let issues =
        (if length s < 1 then [ZodIssue [''prompt''] (lit ''Prompt cannot be empty'')] else []) @
        (if length s > 1000
         then [ZodIssue [''prompt''] (lit ''Prompt must be 1000 characters or less'')] else [])
      in if issues = [] then Inr (trim s) else Inl issues)"
| "parse_prompt tm v = Inl [ZodIssue [''prompt''] (tm ExpectedString v)]"

text \<open>
  \<open>z.string().optional().default(d).refine(val => [d].includes(val), ...)\<close>: a missing
  field takes the default; the refinement runs on a value that is a string.
\<close>

fun parse_model_value :: "type_error_message \<Rightarrow> jsvalue \<Rightarrow> ZodIssue list + jsstring" where
  "parse_model_value tm (JStr val) =
     (if val \<in> set [default_model] then Inr val
      else Inl [ZodIssue [''model''] (lit ''Invalid model specified'')])"
| "parse_model_value tm v = Inl [ZodIssue [''model''] (tm ExpectedString (Some v))]"

definition parse_model :: "type_error_message \<Rightarrow> jsvalue option \<Rightarrow> ZodIssue list + jsstring" where
  "parse_model tm v =
     parse_model_value tm (case v of None \<Rightarrow> JStr default_model | Some x \<Rightarrow> x)"

definition issues_of :: "ZodIssue list + 'a \<Rightarrow> ZodIssue list" where
  "issues_of r = (case r of Inl issues \<Rightarrow> issues | Inr x \<Rightarrow> [])"

text \<open>
  \<open>ImageGenerationRequestSchema.safeParse\<close>: \<open>Inl\<close> carries \<open>validation.error.issues\<close>,
  \<open>Inr\<close> carries \<open>validation.data\<close> as the pair (prompt, model). Unknown keys are dropped.
\<close>

fun ImageGenerationRequestSchema ::
  "type_error_message \<Rightarrow> jsvalue \<Rightarrow> ZodIssue list + (jsstring \<times> jsstring)" where
  "ImageGenerationRequestSchema tm (JObj kvs) =
     (case (parse_prompt tm (property kvs ''prompt''), parse_model tm (property kvs ''model'')) of
        (Inr p, Inr m) \<Rightarrow> Inr (p, m)
      | (rp, rm) \<Rightarrow> Inl (issues_of rp @ issues_of rm))"
| "ImageGenerationRequestSchema tm v = Inl [ZodIssue [] (tm ExpectedObject (Some v))]"


section \<open>lib/types/image-generation.ts\<close>

datatype ImageGenerationError =
    INVALID_PROMPT
  | API_KEY_MISSING
  | API_KEY_INVALID
  | RATE_LIMIT_EXCEEDED
  | MODEL_UNAVAILABLE
  | GENERATION_FAILED
  | INTERNAL_ERROR

record dimensions =
  width :: nat
  height :: nat

datatype details =
    ValidationErrors "ZodIssue list"
  | OriginalError "jsvalue option" "jsstring option"

text \<open>The union \<open>SuccessResponse | ErrorResponse\<close>; \<open>success\<close> is its discriminating field.\<close>

datatype ImageGenerationAPIResponse =
    success: SuccessResponse
      (imageUrl: jsstring) (requestId: jsstring) (generatedAt: date)
      (dimensions: dimensions) (prompt: jsstring) (model: jsstring)
  | ErrorResponse
      (error: ImageGenerationError) (message: jsstring) (requestId: jsstring)
      (generatedAt: date) (details: "details option")


section \<open>app/api/generate-image/route.ts\<close>

text \<open>
  What the handler reads from outside itself: the process environment, the identifier
  and clock it draws at entry, the vendor's model factory \<open>google(model)\<close> (\<open>None\<close> when
  it returns, \<open>Some e\<close> when it throws \<open>e\<close>), Node's
  \<open>Buffer.from(s).toString('base64')\<close>, and Zod's type error text.

  The factory is foreign code and \<open>catch (error: unknown)\<close> takes whatever it throws, so
  a caught value is described by what the \<open>catch\<close> block asks of it. For an \<open>Error\<close> that is
  its \<open>message\<close>, which may be any value, and its \<open>stack\<close>; for anything else it is
  \<open>String(error)\<close>, \<open>None\<close> when the conversion throws (an object without a prototype,
  say). A message that is neither a string nor \<open>undefined\<close> nor \<open>null\<close> is given by what a
  call of its \<open>includes\<close> answers for each argument (\<open>None\<close> when the call throws, as it
  does on a number, which has no such method) and by what \<open>JSON.stringify\<close> makes of it
  (\<open>None\<close> when that throws).
\<close>

datatype message_value =
    MessageString jsstring
  | MessageUndefined
  | MessageNull
  | MessageOther "jsstring \<Rightarrow> bool option" "jsvalue option"

datatype caught =
    CaughtError message_value "jsstring option"
  | CaughtOther "jsstring option"

text \<open>What leaves the handler when the \<open>catch\<close> block itself throws.\<close>

datatype escaped = ConversionThrew | IncludesThrew | StringifyThrew

record server_env =
  GOOGLE_AI_API_KEY :: "jsstring option"
  NODE_ENV :: "jsstring option"
  randomUUID :: jsstring
  now :: date
  google :: "jsstring \<Rightarrow> caught option"
  toBase64 :: "jsstring \<Rightarrow> jsstring"
  typeErrorMessage :: type_error_message

record http_response =
  status :: nat
  body :: ImageGenerationAPIResponse

definition placeholderSvg :: "jsstring \<Rightarrow> jsstring" where
  \<open>placeholderSvg p =
     lit ''
      <svg width="512" height="512" xmlns="http://www.w3.org/2000/svg">
        <defs>
          <linearGradient id="grad" x1="0%" y1="0%" x2="100%" y2="100%">
            <stop offset="0%" style="stop-color:#667eea;stop-opacity:1" />
            <stop offset="100%" style="stop-color:#764ba2;stop-opacity:1" />
          </linearGradient>
        </defs>
        <rect width="100%" height="100%" fill="url(#grad)"/>
        <circle cx="256" cy="200" r="60" fill="rgba(255,255,255,0.2)"/>
        <text x="50%" y="50%" text-anchor="middle" font-family="Arial, sans-serif" font-size="20" fill="white" font-weight="bold">''
     @ [0x2728] @ lit '' AI Generated '' @ [0x2728] @ lit ''</text>
        <text x="50%" y="70%" text-anchor="middle" font-family="Arial, sans-serif" font-size="14" fill="rgba(255,255,255,0.8)">"''
     @ (if length p > 25 then take 25 p @ lit ''...'' else p) @ lit ''"</text>
        <text x="50%" y="85%" text-anchor="middle" font-family="Arial, sans-serif" font-size="12" fill="rgba(255,255,255,0.6)">Demo Mode - RetroUI + Google AI</text>
      </svg>
    ''\<close>

definition placeholderImageUrl :: "server_env \<Rightarrow> jsstring \<Rightarrow> jsstring" where
  "placeholderImageUrl env p = lit ''data:image/svg+xml;base64,'' @ toBase64 env (placeholderSvg p)"

text \<open>\<open>!googleApiKey\<close>: the variable is unset or empty.\<close>

definition credential_missing :: "server_env \<Rightarrow> bool" where
  "credential_missing env \<longleftrightarrow>
     (case GOOGLE_AI_API_KEY env of None \<Rightarrow> True | Some k \<Rightarrow> k = [])"

text \<open>
  The body of \<open>try\<close>. The request is what \<open>request.json()\<close> resolves to, \<open>None\<close> when it
  rejects (the \<open>.catch\<close> turns that into \<open>null\<close>). \<open>Inl e\<close>: the block threw \<open>e\<close>;
  \<open>Inr r\<close>: it returned \<open>r\<close>. The check of the response against
  \<open>ImageGenerationResponseSchema\<close> only writes to the console.
\<close>

definition POST_try :: "server_env \<Rightarrow> jsvalue option \<Rightarrow> caught + http_response" where
  "POST_try env request =
     (if credential_missing env then
        Inr \<lparr>status = 401,
             body = ErrorResponse API_KEY_MISSING (lit ''Google AI API key is not configured'')
                      (randomUUID env) (now env) None\<rparr>
      else
        let json = (case request of None \<Rightarrow> JNull | Some v \<Rightarrow> v) in
        if \<not> truthy json then
          Inr \<lparr>status = 400,
               body = ErrorResponse INVALID_PROMPT (lit ''Invalid JSON in request body'')
                        (randomUUID env) (now env) None\<rparr>
        else
          case ImageGenerationRequestSchema (typeErrorMessage env) json of
            Inl issues \<Rightarrow>
              Inr \<lparr>status = 400,
                   body = ErrorResponse INVALID_PROMPT
                            (join (lit '', '') (map issue_message issues))
                            (randomUUID env) (now env) (Some (ValidationErrors issues))\<rparr>
          | Inr (p, m) \<Rightarrow>
              (case google env m of
                 Some e \<Rightarrow> Inl e
               | None \<Rightarrow>
                   Inr \<lparr>status = 200,
                        body = SuccessResponse (placeholderImageUrl env p) (randomUUID env)
                                 (now env) \<lparr>width = 512, height = 512\<rparr> p m\<rparr>))"

text \<open>
  The \<open>catch\<close> block. Its first statement reads the message:
  \<open>error instanceof Error ? error.message : String(error)\<close>; \<open>None\<close> when that throws.
\<close>

definition errorMessage_of :: "caught \<Rightarrow> message_value option" where
  "errorMessage_of e =
     (case e of
        CaughtError m st \<Rightarrow> Some m
      | CaughtOther None \<Rightarrow> None
      | CaughtOther (Some s) \<Rightarrow> Some (MessageString s))"

text \<open>
  \<open>errorMessage?.includes(sub)\<close> as a condition: the optional chain gives \<open>undefined\<close>, which
  is falsy, on \<open>undefined\<close> and \<open>null\<close>; \<open>None\<close> when the call throws.
\<close>

fun includes_call :: "message_value \<Rightarrow> string \<Rightarrow> bool option" where
  "includes_call (MessageString s) sub = Some (str_includes s (lit sub))"
| "includes_call MessageUndefined sub = Some False"
| "includes_call MessageNull sub = Some False"
| "includes_call (MessageOther f j) sub = f (lit sub)"

text \<open>\<open>a || b\<close>: the right operand is evaluated only when the left one is falsy.\<close>

definition either :: "bool option \<Rightarrow> bool option \<Rightarrow> bool option" where
  "either a b = (case a of None \<Rightarrow> None | Some True \<Rightarrow> Some True | Some False \<Rightarrow> b)"

text \<open>
  The \<open>if\<close> / \<open>else if\<close> cascade: the error type, the status code and the message of the
  first branch whose condition holds; \<open>None\<close> when a condition throws.
\<close>

definition classify :: "message_value \<Rightarrow> (ImageGenerationError \<times> nat \<times> jsstring) option" where
  "classify errorMessage =
     (case includes_call errorMessage ''API key'' of
        None \<Rightarrow> None
      | Some True \<Rightarrow> Some (API_KEY_INVALID, 401, lit ''Invalid Google AI API key'')
      | Some False \<Rightarrow>
     (case either (includes_call errorMessage ''quota'')
                  (includes_call errorMessage ''rate limit'') of
        None \<Rightarrow> None
      | Some True \<Rightarrow>
          Some (RATE_LIMIT_EXCEEDED, 429, lit ''Rate limit exceeded. Please try again later'')
      | Some False \<Rightarrow>
     (case includes_call errorMessage ''model'' of
        None \<Rightarrow> None
      | Some True \<Rightarrow>
          Some (MODEL_UNAVAILABLE, 503, lit ''The requested AI model is currently unavailable'')
      | Some False \<Rightarrow>
     (case either (includes_call errorMessage ''generation'')
                  (includes_call errorMessage ''generate'') of
        None \<Rightarrow> None
      | Some True \<Rightarrow>
          Some (GENERATION_FAILED, 500,
                lit ''Failed to generate image. Please try a different prompt'')
      | Some False \<Rightarrow>
          Some (INTERNAL_ERROR, 500,
                lit ''An unexpected error occurred during image generation'')))))"

text \<open>
  \<open>originalError: errorMessage\<close> as \<open>NextResponse.json\<close> serialises it: \<open>None\<close> when
  \<open>JSON.stringify\<close> throws, \<open>Some None\<close> for \<open>undefined\<close>, which is left out.
\<close>

fun originalError :: "message_value \<Rightarrow> jsvalue option option" where
  "originalError (MessageString s) = Some (Some (JStr s))"
| "originalError MessageUndefined = Some None"
| "originalError MessageNull = Some (Some JNull)"
| "originalError (MessageOther f j) = map_option Some j"

definition POST_catch :: "server_env \<Rightarrow> caught \<Rightarrow> escaped + http_response" where
  "POST_catch env e =
     (case errorMessage_of e of
        None \<Rightarrow> Inl ConversionThrew
      | Some errorMessage \<Rightarrow>
          (case classify errorMessage of
             None \<Rightarrow> Inl IncludesThrew
           | Some (errorType, statusCode, msg) \<Rightarrow>
               (case originalError errorMessage of
                  None \<Rightarrow> Inl StringifyThrew
                | Some original \<Rightarrow>
                    Inr \<lparr>status = statusCode,
                         body = ErrorResponse errorType msg (randomUUID env) (now env)
                                  (Some (OriginalError original
                                     (case e of
                                        CaughtError m st \<Rightarrow>
                                          if NODE_ENV env = Some (lit ''development'')
                                          then st else None
                                      | CaughtOther s \<Rightarrow> None)))\<rparr>)))"

text \<open>The handler: \<open>Inr\<close> the response it returns, \<open>Inl\<close> what it throws.\<close>

definition POST :: "server_env \<Rightarrow> jsvalue option \<Rightarrow> escaped + http_response" where
  "POST env request =
     (case POST_try env request of Inl e \<Rightarrow> POST_catch env e | Inr r \<Rightarrow> Inr r)"

text \<open>The handlers of the other methods.\<close>

definition GET :: "server_env \<Rightarrow> http_response" where
  "GET env =
     \<lparr>status = 405,
      body = ErrorResponse INTERNAL_ERROR (lit ''Method not allowed. Use POST to generate images'')
               (randomUUID env) (now env) None\<rparr>"

definition PUT :: "server_env \<Rightarrow> http_response" where
  "PUT env =
     \<lparr>status = 405,
      body = ErrorResponse INTERNAL_ERROR (lit ''Method not allowed. Use POST to generate images'')
               (randomUUID env) (now env) None\<rparr>"

definition DELETE :: "server_env \<Rightarrow> http_response" where
  "DELETE env =
     \<lparr>status = 405,
      body = ErrorResponse INTERNAL_ERROR (lit ''Method not allowed. Use POST to generate images'')
               (randomUUID env) (now env) None\<rparr>"


section \<open>Client: the form schema and the UI state\<close>

text \<open>
  \<open>ClientFormSchema.safeParse({ prompt: val })\<close>, as the messages of
  \<open>validation.error.issues\<close> in order; the empty list is success. The regular
  expression \<open>/^\s*$/\<close> matches exactly the strings made of the code units that \<open>trim\<close>
  strips.
\<close>

definition ClientFormSchema :: "jsstring \<Rightarrow> jsstring list" where
  "ClientFormSchema val =
     (if length val < 1 then [lit ''Please describe the image you want to generate''] else []) @
     (if length val > 1000 then [lit ''Description must be 1000 characters or less''] else []) @
     (if length (trim val) > 0 then [] else [lit ''Prompt cannot be only whitespace'']) @
     (if \<not> list_all isWhiteSpace val then [] else [lit ''Please provide a meaningful description''])"

text \<open>\<open>validation.error.issues[0]?.message || fallback\<close>, \<open>None\<close> when validation succeeds.\<close>

definition first_issue :: "jsstring \<Rightarrow> jsstring \<Rightarrow> jsstring option" where
  "first_issue val fallback =
     (case ClientFormSchema val of [] \<Rightarrow> None | m # ms \<Rightarrow> Some (or_else m fallback))"

datatype request_status = Pending | Generating | Completed | Error

record ImageGenerationRequest =
  req_id :: jsstring
  req_prompt :: jsstring
  req_timestamp :: date
  req_status :: request_status
  req_model :: jsstring

record GeneratedImage =
  img_id :: jsstring
  img_requestId :: jsstring
  img_imageUrl :: jsstring
  img_prompt :: jsstring
  img_generatedAt :: date
  img_dimensions :: dimensions
  img_fileSize :: "nat option"

record ImageGeneratorUIState =
  isLoading :: bool
  ui_error :: "jsstring option"
  currentRequest :: "ImageGenerationRequest option"
  generatedImage :: "GeneratedImage option"
  inputValue :: jsstring

definition initialState :: ImageGeneratorUIState where
  "initialState =
     \<lparr>isLoading = False, ui_error = None, currentRequest = None, generatedImage = None,
      inputValue = []\<rparr>"

text \<open>
  What one call of \<open>generateImage\<close> draws from outside: two identifiers, the clock, the
  stack the runtime attaches to a \<open>new Error\<close>, and how the \<open>fetch\<close> goes: it rejects,
  or \<open>response.json()\<close> rejects, or a status arrives with a body of the declared type
  \<open>ImageGenerationAPIResponse\<close>.
\<close>

datatype fetch_outcome =
    FetchRejected thrown
  | JsonRejected nat thrown
  | Responded nat ImageGenerationAPIResponse

record attempt =
  requestUUID :: jsstring
  imageUUID :: jsstring
  timestamp :: date
  newErrorStack :: "jsstring option"
  outcome :: fetch_outcome

text \<open>\<open>error instanceof Error ? error.message : String(error)\<close> on the client.\<close>

definition thrown_message :: "thrown \<Rightarrow> jsstring" where
  "thrown_message e = (case e of JsError msg st \<Rightarrow> msg | NonError s \<Rightarrow> s)"

text \<open>\<open>response.ok\<close>.\<close>

definition ok :: "nat \<Rightarrow> bool" where
  "ok st \<longleftrightarrow> 200 \<le> st \<and> st \<le> 299"

text \<open>A status code in a template literal.\<close>

fun decimal :: "nat \<Rightarrow> jsstring" where
  "decimal n =
     (if n < 10 then [of_nat (48 + n)] else decimal (n div 10) @ [of_nat (48 + n mod 10)])"

text \<open>
  A JavaScript number that is not known to be anything more: a finite value, an infinity
  or NaN.
\<close>

datatype number = Number rat | Infinity | MinusInfinity | NaN

text \<open>The events a run leaves behind, in order (console output is left out).\<close>

datatype event =
    SetState ImageGeneratorUIState
  | Fetch jsstring jsstring
  | SetTimeout number
  | OnSuccess GeneratedImage
  | OnError jsstring

type_synonym run = "ImageGeneratorUIState \<times> event list"

text \<open>\<open>setState(prev => f prev)\<close> and a call of an effect.\<close>

definition setState :: "(ImageGeneratorUIState \<Rightarrow> ImageGeneratorUIState) \<Rightarrow> run \<Rightarrow> run" where
  "setState f r = (f (fst r), snd r @ [SetState (f (fst r))])"

definition emit :: "event \<Rightarrow> run \<Rightarrow> run" where
  "emit e r = (fst r, snd r @ [e])"

definition new_request :: "attempt \<Rightarrow> jsstring \<Rightarrow> ImageGenerationRequest" where
  "new_request a trimmedPrompt =
     \<lparr>req_id = requestUUID a, req_prompt = trimmedPrompt, req_timestamp = timestamp a,
      req_status = Generating, req_model = lit ''gemini-2.5-flash-image-preview''\<rparr>"

text \<open>
  The three updates both \<open>generateImage\<close>s pass to \<open>setState\<close>: entering the loading
  state (which clears the previous image), success, and the final error.
\<close>

definition loadingState ::
  "ImageGenerationRequest \<Rightarrow> ImageGeneratorUIState \<Rightarrow> ImageGeneratorUIState" where
  "loadingState request prev =
     prev\<lparr>isLoading := True, ui_error := None, currentRequest := Some request,
          generatedImage := None\<rparr>"

definition successState ::
  "ImageGenerationRequest \<Rightarrow> GeneratedImage \<Rightarrow> ImageGeneratorUIState \<Rightarrow> ImageGeneratorUIState"
  where
  "successState request img prev =
     prev\<lparr>isLoading := False, ui_error := None,
          currentRequest := Some (request\<lparr>req_status := Completed\<rparr>),
          generatedImage := Some img\<rparr>"

definition errorState ::
  "ImageGenerationRequest \<Rightarrow> jsstring \<Rightarrow> ImageGeneratorUIState \<Rightarrow> ImageGeneratorUIState" where
  "errorState request msg prev =
     prev\<lparr>isLoading := False, ui_error := Some msg,
          currentRequest := Some (request\<lparr>req_status := Error\<rparr>)\<rparr>"

text \<open>
  The body of \<open>try\<close> in both \<open>generateImage\<close>s up to the success update: \<open>Inl e\<close> when it
  throws \<open>e\<close>, \<open>Inr\<close> the \<open>GeneratedImage\<close> built from the response. Under the declared type
  \<open>data.dimensions\<close> is always there, so the \<open>||\<close> fallback is never taken.
\<close>

definition fetch_try :: "attempt \<Rightarrow> jsstring \<Rightarrow> thrown + GeneratedImage" where
  "fetch_try a trimmedPrompt =
     (case outcome a of
        FetchRejected e \<Rightarrow> Inl e
      | JsonRejected st e \<Rightarrow> Inl e
      | Responded st data \<Rightarrow>
          if \<not> ok st \<or> \<not> success data then
            Inl (JsError
                  (if \<not> success data then message data
                   else lit ''HTTP '' @ decimal st @ lit '': Failed to generate image'')
                  (newErrorStack a))
          else
            Inr \<lparr>img_id = imageUUID a, img_requestId = requestId data,
                 img_imageUrl = imageUrl data, img_prompt = trimmedPrompt,
                 img_generatedAt = generatedAt data, img_dimensions = dimensions data,
                 img_fileSize = None\<rparr>)"


section \<open>hooks/useImageGeneration.ts\<close>

text \<open>
  The options after their defaults are filled in. \<open>maxRetries\<close> is whatever number the
  caller passes: the hook does not check it. The callbacks \<open>onSuccess\<close> and \<open>onError\<close>
  appear as events.
\<close>

record UseImageGenerationOptions =
  validateInput :: bool
  maxRetries :: number

definition default_options :: UseImageGenerationOptions where
  "default_options = \<lparr>validateInput = True, maxRetries = Number 3\<rparr>"

definition validatePrompt :: "UseImageGenerationOptions \<Rightarrow> jsstring \<Rightarrow> jsstring option" where
  "validatePrompt opts v =
     (if \<not> validateInput opts then None else first_issue v (lit ''Invalid input''))"

definition setInputValue ::
  "UseImageGenerationOptions \<Rightarrow> jsstring \<Rightarrow> ImageGeneratorUIState \<Rightarrow> ImageGeneratorUIState" where
  "setInputValue opts v prev =
     prev\<lparr>inputValue := v,
          ui_error := (if validateInput opts then validatePrompt opts v else None)\<rparr>"

definition clearError :: "ImageGeneratorUIState \<Rightarrow> ImageGeneratorUIState" where
  "clearError prev = prev\<lparr>ui_error := None\<rparr>"

definition clearImage :: "ImageGeneratorUIState \<Rightarrow> ImageGeneratorUIState" where
  "clearImage prev = prev\<lparr>generatedImage := None\<rparr>"

text \<open>
  The computed values of a render: \<open>validationError\<close>, and
  \<open>isValid = !validationError && state.inputValue.trim().length > 0\<close>.
\<close>

definition isValid :: "UseImageGenerationOptions \<Rightarrow> ImageGeneratorUIState \<Rightarrow> bool" where
  "isValid opts st \<longleftrightarrow>
     (case (if validateInput opts then validatePrompt opts (inputValue st) else None) of
        None \<Rightarrow> True
      | Some validationError \<Rightarrow> validationError = []) \<and>
     length (trim (inputValue st)) > 0"

text \<open>
  The effect of the hook, run after a render: \<open>if (state.error && isValid) clearError()\<close>.
\<close>

definition useEffect :: "UseImageGenerationOptions \<Rightarrow> run \<Rightarrow> run" where
  "useEffect opts r =
     (if (case ui_error (fst r) of None \<Rightarrow> False | Some m \<Rightarrow> m \<noteq> []) \<and> isValid opts (fst r)
      then setState clearError r else r)"

text \<open>
  \<open>retryCount\<close> is a double that holds a whole number: it starts at 0 and grows by
  \<open>retryCount + 1\<close>, which is exact below \<open>2 ^ 53\<close> and leaves \<open>2 ^ 53\<close> as it is.
\<close>

definition plus_one :: "nat \<Rightarrow> nat" where
  "plus_one retryCount = (if retryCount < 2 ^ 53 then retryCount + 1 else retryCount)"

text \<open>\<open>retryCount < maxRetries\<close>: a comparison with NaN is false.\<close>

fun lt_number :: "nat \<Rightarrow> number \<Rightarrow> bool" where
  "lt_number retryCount (Number q) = (of_nat retryCount < q)"
| "lt_number retryCount Infinity = True"
| "lt_number retryCount MinusInfinity = False"
| "lt_number retryCount NaN = False"

text \<open>
  \<open>Math.pow(2, retryCount) * 1000\<close>: exact while the product is a finite double, which it
  is up to \<open>retryCount = 1014\<close>, and \<open>Infinity\<close> from there on.
\<close>

definition backoff :: "nat \<Rightarrow> number" where
  "backoff retryCount =
     (if retryCount \<le> 1014 then Number (of_nat (2 ^ retryCount * 1000)) else Infinity)"

definition shouldRetry :: "UseImageGenerationOptions \<Rightarrow> nat \<Rightarrow> jsstring \<Rightarrow> bool" where
  "shouldRetry opts retryCount errorMessage \<longleftrightarrow>
     lt_number retryCount (maxRetries opts) \<and>
     (str_includes errorMessage (lit ''network'') \<or>
      str_includes errorMessage (lit ''timeout'') \<or>
      str_includes errorMessage (lit ''503'') \<or>
      str_includes errorMessage (lit ''502''))"

text \<open>
  \<open>generateImage(retryCount)\<close>. The closure holds \<open>state.inputValue\<close> of the render that
  made it, and the call scheduled by \<open>setTimeout\<close> is a call of the same closure;
  \<open>env k\<close> is what the call with \<open>retryCount = k\<close> meets. The run is threaded through:
  the state and the events so far. The component renders, and its effect runs, while
  the call waits for the fetch and after the call has ended. Nothing in the code bounds
  the recursion, so the result is \<open>None\<close> when the retries never end.
\<close>

partial_function (option) generateImage ::
  "UseImageGenerationOptions \<Rightarrow> (nat \<Rightarrow> attempt) \<Rightarrow> jsstring \<Rightarrow> nat \<Rightarrow> run \<Rightarrow> run option" where
  "generateImage opts env input retryCount r =
     (let trimmedPrompt = trim input in
      case (if validateInput opts
            then first_issue trimmedPrompt (lit ''Please provide a valid prompt'') else None) of
        Some errorMessage \<Rightarrow>
          Some (useEffect opts
                 (emit (OnError errorMessage)
                   (setState (\<lambda>prev. prev\<lparr>ui_error := Some errorMessage\<rparr>) r)))
      | None \<Rightarrow>
          let request = new_request (env retryCount) trimmedPrompt;
              r1 = setState (loadingState request) r;
              r2 = useEffect opts
                     (emit (Fetch trimmedPrompt (lit ''gemini-2.5-flash-image-preview'')) r1)
          in case fetch_try (env retryCount) trimmedPrompt of
               Inr img \<Rightarrow>
                 Some (useEffect opts
                        (emit (OnSuccess img) (setState (successState request img) r2)))
             | Inl e \<Rightarrow>
                 let errorMessage = thrown_message e in
                 if shouldRetry opts retryCount errorMessage then
                   generateImage opts env input (plus_one retryCount)
                     (emit (SetTimeout (backoff retryCount)) r2)
                 else
                   let finalErrorMessage =
                         or_else errorMessage (lit ''Failed to generate image. Please try again.'')
                   in Some (useEffect opts
                             (emit (OnError finalErrorMessage)
                               (setState (errorState request finalErrorMessage) r2))))"

text \<open>What the hook hands out: \<open>generateImage: () => generateImage(0)\<close>.\<close>

definition useImageGeneration_generateImage ::
  "UseImageGenerationOptions \<Rightarrow> (nat \<Rightarrow> attempt) \<Rightarrow> ImageGeneratorUIState \<Rightarrow> run option" where
  "useImageGeneration_generateImage opts env st = generateImage opts env (inputValue st) 0 (st, [])"

text \<open>The delays handed to \<open>setTimeout\<close> in a run, in order.\<close>

fun timeouts :: "event list \<Rightarrow> number list" where
  "timeouts [] = []"
| "timeouts (SetTimeout d # es) = d # timeouts es"
| "timeouts (e # es) = timeouts es"


section \<open>components/ImageGenerator.tsx\<close>

text \<open>The component's own \<open>generateImage\<close>: always validated, one fetch, no retry.\<close>

definition ImageGenerator_generateImage :: "attempt \<Rightarrow> ImageGeneratorUIState \<Rightarrow> run" where
  "ImageGenerator_generateImage a st =
     (let trimmedPrompt = trim (inputValue st); r = (st, []) in
      case first_issue trimmedPrompt (lit ''Please provide a valid prompt'') of
        Some errorMessage \<Rightarrow> setState (\<lambda>prev. prev\<lparr>ui_error := Some errorMessage\<rparr>) r
      | None \<Rightarrow>
          let request = new_request a trimmedPrompt;
              r1 = setState (loadingState request) r;
              r2 = emit (Fetch trimmedPrompt (lit ''gemini-2.5-flash-image-preview'')) r1
          in case fetch_try a trimmedPrompt of
               Inr img \<Rightarrow> setState (successState request img) r2
             | Inl e \<Rightarrow>
                 setState
                   (errorState request
                      (case e of
                         JsError m s \<Rightarrow> m
                       | NonError s \<Rightarrow> lit ''Failed to generate image. Please try again.'')) r2)"

definition handleInputChange :: "jsstring \<Rightarrow> ImageGeneratorUIState \<Rightarrow> ImageGeneratorUIState" where
  "handleInputChange v prev =
     prev\<lparr>inputValue := v,
          ui_error := (if v \<noteq> [] then first_issue v (lit ''Invalid input'') else None)\<rparr>"


section \<open>Sample environments\<close>

text \<open>A server with the credential set whose vendor call returns.\<close>

definition sample_env :: server_env where
  "sample_env =
     \<lparr>GOOGLE_AI_API_KEY = Some (lit ''test-api-key''), NODE_ENV = None,
      randomUUID = lit ''0b0e7a1c-5a52-4a0e-9d57-3f1f5a2b6c11'', now = 1758844800000,
      google = (\<lambda>m. None), toBase64 = (\<lambda>s. s),
      typeErrorMessage = (\<lambda>t v. lit ''Required'')\<rparr>"



text \<open>A vendor call that throws an \<open>Error\<close> whose message is the number 42.\<close>

definition numeric_message_env :: server_env where
  "numeric_message_env =
     sample_env\<lparr>google :=
       (\<lambda>m. Some (CaughtError (MessageOther (\<lambda>sub. None) (Some (JNum (Finite 42)))) None))\<rparr>"

text \<open>The options with no limit on the retries.\<close>

definition unlimited_options :: UseImageGenerationOptions where
  "unlimited_options = \<lparr>validateInput = True, maxRetries = Infinity\<rparr>"

text \<open>The options with a limit that is not a whole number.\<close>

definition fractional_options :: UseImageGenerationOptions where
  "fractional_options = \<lparr>validateInput = True, maxRetries = Number (5 / 2)\<rparr>"

text \<open>A client whose every \<open>fetch\<close> rejects with a network error.\<close>

definition network_down :: "nat \<Rightarrow> attempt" where
  "network_down k =
     \<lparr>requestUUID = lit ''request-'' @ decimal k, imageUUID = lit ''image-'' @ decimal k,
      timestamp = 1758844800000 + int k, newErrorStack = None,
      outcome = FetchRejected (JsError (lit ''network down'') None)\<rparr>"

text \<open>A client whose every \<open>fetch\<close> is answered with a success response.\<close>

definition responding :: "jsstring \<Rightarrow> nat \<Rightarrow> attempt" where
  "responding p k =
     \<lparr>requestUUID = lit ''request-'' @ decimal k, imageUUID = lit ''image-'' @ decimal k,
      timestamp = 1758844800000 + int k, newErrorStack = None,
      outcome = Responded 200
        (SuccessResponse (lit ''data:image/svg+xml;base64,PHN2Zz4='') (lit ''server-request'')
           1758844800123 \<lparr>width = 512, height = 512\<rparr> p
           (lit ''gemini-2.5-flash-image-preview''))\<rparr>"

definition responded_image :: "jsstring \<Rightarrow> jsstring \<Rightarrow> GeneratedImage" where
  "responded_image sent trimmedPrompt =
     \<lparr>img_id = imageUUID (responding sent 0), img_requestId = lit ''server-request'',
      img_imageUrl = lit ''data:image/svg+xml;base64,PHN2Zz4='', img_prompt = trimmedPrompt,
      img_generatedAt = 1758844800123, img_dimensions = \<lparr>width = 512, height = 512\<rparr>,
      img_fileSize = None\<rparr>"


section \<open>Strings, the request schema and the two outcomes of validation\<close>

text \<open>\<open>str_includes\<close> is the contiguous-sublist relation of the library.\<close>

lemma str_includes_sublist: "str_includes s sub \<longleftrightarrow> sublist sub s"
  by (induction s) (auto simp: sublist_Cons_right)

lemma trim_no_whitespace:
  assumes "\<forall>c \<in> set s. \<not> isWhiteSpace c"
  shows "trim s = s"
proof -
  have a: "dropWhile isWhiteSpace s = s"
    using assms by (cases s) auto
  have b: "dropWhile isWhiteSpace (rev s) = rev s"
    using assms by (cases "rev s") (auto simp: dropWhile_eq_self_iff hd_rev)
  show ?thesis by (simp add: trim_def a b)
qed

lemma parse_prompt_ok:
  assumes "1 \<le> length p" "length p \<le> 1000"
  shows "parse_prompt tm (Some (JStr p)) = Inr (trim p)"
  using assms by (cases p) auto

lemma parse_prompt_too_long:
  assumes "length p > 1000"
  shows "\<exists>issues. parse_prompt tm (Some (JStr p)) = Inl issues"
  using assms by (simp add: Let_def)

lemma parse_model_default:
  assumes "v = None \<or> v = Some (JStr default_model)"
  shows "parse_model tm v = Inr default_model"
  using assms by (auto simp: parse_model_def)

lemma parse_model_other:
  assumes "v \<noteq> JStr default_model"
  shows "\<exists>issues. parse_model tm (Some v) = Inl issues"
  using assms by (cases v) (auto simp: parse_model_def)

lemma schema_rejects:
  assumes "(\<exists>i. parse_prompt tm (property kvs ''prompt'') = Inl i)
           \<or> (\<exists>i. parse_model tm (property kvs ''model'') = Inl i)"
  shows "\<exists>issues. ImageGenerationRequestSchema tm (JObj kvs) = Inl issues"
  using assms by (auto split: sum.splits)

lemma POST_rejected:
  assumes "GOOGLE_AI_API_KEY env = Some k" "k \<noteq> []"
    and "ImageGenerationRequestSchema (typeErrorMessage env) (JObj kvs) = Inl issues"
  shows "POST env (Some (JObj kvs)) =
           Inr \<lparr>status = 400,
                body = ErrorResponse INVALID_PROMPT (join (lit '', '') (map issue_message issues))
                         (randomUUID env) (now env) (Some (ValidationErrors issues))\<rparr>"
  using assms by (simp add: POST_def POST_try_def credential_missing_def)

lemma POST_accepted:
  assumes "GOOGLE_AI_API_KEY env = Some k" "k \<noteq> []"
    and "ImageGenerationRequestSchema (typeErrorMessage env) (JObj kvs) = Inr (p, m)"
    and "google env m = None"
  shows "POST env (Some (JObj kvs)) =
           Inr \<lparr>status = 200,
                body = SuccessResponse (placeholderImageUrl env p) (randomUUID env) (now env)
                         \<lparr>width = 512, height = 512\<rparr> p m\<rparr>"
  using assms by (simp add: POST_def POST_try_def credential_missing_def)

lemma POST_vendor_throws:
  assumes "GOOGLE_AI_API_KEY env = Some k" "k \<noteq> []"
    and "ImageGenerationRequestSchema (typeErrorMessage env) (JObj kvs) = Inr (p, m)"
    and "google env m = Some e"
  shows "POST_try env (Some (JObj kvs)) = Inl e"
  using assms by (simp add: POST_try_def credential_missing_def)

lemma placeholderImageUrl_nonempty: "placeholderImageUrl env p \<noteq> []"
  by (simp add: placeholderImageUrl_def lit_def)

lemma sample_env_key:
  "GOOGLE_AI_API_KEY sample_env = Some (lit ''test-api-key'')" "lit ''test-api-key'' \<noteq> []"
  by (simp_all add: sample_env_def lit_def)

lemma test_prompt_accepted:
  "ImageGenerationRequestSchema tm (JObj [(lit ''prompt'', JStr (lit ''Test prompt''))])
     = Inr (lit ''Test prompt'', default_model)"
  by (simp add: property_def parse_model_def trim_def isWhiteSpace_def lit_def)




section \<open>The POST handler\<close>

text \<open>
  C3. When the credential is absent (the variable is unset, or set to the empty string)
  the handler answers 401 with \<open>API_KEY_MISSING\<close> whatever the request is: a valid
  body, an invalid one, or none at all because the JSON did not parse. The check comes
  first and does not look at the prompt.
\<close>

theorem POST_credential_missing:
  assumes "GOOGLE_AI_API_KEY env = None \<or> GOOGLE_AI_API_KEY env = Some []"
  shows "POST env request =
           Inr \<lparr>status = 401,
                body = ErrorResponse API_KEY_MISSING (lit ''Google AI API key is not configured'')
                         (randomUUID env) (now env) None\<rparr>"
  using assms by (auto simp: POST_def POST_try_def credential_missing_def)

theorem POST_credential_missing_witness:
  "GOOGLE_AI_API_KEY (sample_env\<lparr>GOOGLE_AI_API_KEY := None\<rparr>) = None \<and>
   map_sum id status (POST (sample_env\<lparr>GOOGLE_AI_API_KEY := None\<rparr>)
             (Some (JObj [(lit ''prompt'', JStr (lit ''Test prompt''))]))) = Inr 401 \<and>
   map_sum id status (POST (sample_env\<lparr>GOOGLE_AI_API_KEY := None\<rparr>) None) = Inr 401"
proof -
  have h: "GOOGLE_AI_API_KEY (sample_env\<lparr>GOOGLE_AI_API_KEY := None\<rparr>) = None
           \<or> GOOGLE_AI_API_KEY (sample_env\<lparr>GOOGLE_AI_API_KEY := None\<rparr>) = Some []"
    by simp
  show ?thesis
    using POST_credential_missing[OF h, of "Some (JObj [(lit ''prompt'', JStr (lit ''Test prompt''))])"]
      POST_credential_missing[OF h, of None]
    by simp
qed

text \<open>
  C1, at the input where it fails. A prompt of three spaces passes \<open>min(1)\<close>, which sees
  the untrimmed string, and is then trimmed to the empty string: the handler answers 200
  with \<open>success: true\<close> and an empty prompt, not 400 \<open>INVALID_PROMPT\<close>.
\<close>

theorem POST_whitespace_only_prompt:
  "POST sample_env (Some (JObj [(lit ''prompt'', JStr (lit ''   ''))])) =
     Inr \<lparr>status = 200,
          body = SuccessResponse (placeholderImageUrl sample_env []) (randomUUID sample_env)
                   (now sample_env) \<lparr>width = 512, height = 512\<rparr> [] default_model\<rparr>"
  by (simp add: POST_def POST_try_def credential_missing_def sample_env_def property_def
      parse_model_def trim_def isWhiteSpace_def lit_def)

text \<open>The empty prompt itself is rejected with 400 \<open>INVALID_PROMPT\<close>.\<close>

lemma POST_empty_prompt:
  assumes "GOOGLE_AI_API_KEY env = Some k" "k \<noteq> []"
    and "property kvs ''prompt'' = Some (JStr [])"
  shows "\<exists>msg d. POST env (Some (JObj kvs)) =
           Inr \<lparr>status = 400,
                body = ErrorResponse INVALID_PROMPT msg (randomUUID env) (now env) d\<rparr>"
proof -
  have "\<exists>i. parse_prompt (typeErrorMessage env) (property kvs ''prompt'') = Inl i"
    using assms(3) by simp
  then obtain issues where
    "ImageGenerationRequestSchema (typeErrorMessage env) (JObj kvs) = Inl issues"
    using schema_rejects by blast
  from POST_rejected[OF assms(1,2) this] show ?thesis by blast
qed

text \<open>
  C2. With the credential set, a prompt of 1 to 1000 code units none of which is
  whitespace, and no model or the default model in the body, the handler answers 200 with
  \<open>success: true\<close> and a non-empty \<open>imageUrl\<close>, provided the vendor's model factory
  returns; the prompt is echoed as sent.
\<close>

theorem POST_valid_prompt:
  assumes key: "GOOGLE_AI_API_KEY env = Some k" "k \<noteq> []"
    and prompt: "property kvs ''prompt'' = Some (JStr p)"
    and len: "1 \<le> length p" "length p \<le> 1000"
    and nows: "\<forall>c \<in> set p. \<not> isWhiteSpace c"
    and model: "property kvs ''model'' = None \<or> property kvs ''model'' = Some (JStr default_model)"
    and vendor: "google env default_model = None"
  shows "\<exists>url. url \<noteq> [] \<and>
           POST env (Some (JObj kvs)) =
             Inr \<lparr>status = 200,
                  body = SuccessResponse url (randomUUID env) (now env)
                           \<lparr>width = 512, height = 512\<rparr> p default_model\<rparr>"
proof -
  have "ImageGenerationRequestSchema (typeErrorMessage env) (JObj kvs) = Inr (p, default_model)"
    using prompt parse_prompt_ok[OF len] parse_model_default[OF model] trim_no_whitespace[OF nows]
    by simp
  from POST_accepted[OF key this vendor] placeholderImageUrl_nonempty
  show ?thesis by blast
qed

theorem POST_valid_prompt_witness:
  "GOOGLE_AI_API_KEY sample_env = Some (lit ''test-api-key'') \<and>
   property [(lit ''prompt'', JStr (lit ''sunset''))] ''prompt''
     = Some (JStr (lit ''sunset'')) \<and>
   google sample_env default_model = None \<and>
   (\<exists>url. url \<noteq> [] \<and>
      POST sample_env (Some (JObj [(lit ''prompt'', JStr (lit ''sunset''))])) =
        Inr \<lparr>status = 200,
             body = SuccessResponse url (randomUUID sample_env) (now sample_env)
                      \<lparr>width = 512, height = 512\<rparr> (lit ''sunset'') default_model\<rparr>)"
proof -
  have prompt: "property [(lit ''prompt'', JStr (lit ''sunset''))] ''prompt''
     = Some (JStr (lit ''sunset''))"
    by (simp add: property_def)
  have len: "1 \<le> length (lit ''sunset'')" "length (lit ''sunset'') \<le> 1000"
    by (simp_all add: lit_def)
  have nows: "\<forall>c \<in> set (lit ''sunset''). \<not> isWhiteSpace c"
    by (simp add: lit_def isWhiteSpace_def)
  have model: "property [(lit ''prompt'', JStr (lit ''sunset''))] ''model'' = None
      \<or> property [(lit ''prompt'', JStr (lit ''sunset''))] ''model'' = Some (JStr default_model)"
    by (simp add: property_def lit_def)
  have vendor: "google sample_env default_model = None"
    by (simp add: sample_env_def)
  show ?thesis
    using sample_env_key(1) prompt vendor
      POST_valid_prompt[OF sample_env_key prompt len nows model vendor]
    by simp
qed




text \<open>So does it for an \<open>Error\<close> whose message has no \<open>includes\<close> to call.\<close>

lemma POST_rethrows_on_numeric_message:
  "POST numeric_message_env (Some (JObj [(lit ''prompt'', JStr (lit ''Test prompt''))]))
     = Inl IncludesThrew"
proof -
  have key: "GOOGLE_AI_API_KEY numeric_message_env = Some (lit ''test-api-key'')"
    by (simp add: numeric_message_env_def sample_env_def)
  have vendor: "google numeric_message_env default_model
      = Some (CaughtError (MessageOther (\<lambda>sub. None) (Some (JNum (Finite 42)))) None)"
    by (simp add: numeric_message_env_def)
  have "POST_try numeric_message_env
          (Some (JObj [(lit ''prompt'', JStr (lit ''Test prompt''))]))
        = Inl (CaughtError (MessageOther (\<lambda>sub. None) (Some (JNum (Finite 42)))) None)"
    by (rule POST_vendor_throws[OF key sample_env_key(2) test_prompt_accepted vendor])
  then show ?thesis
    by (simp add: POST_def POST_catch_def errorMessage_of_def classify_def)
qed

text \<open>Nothing but the vendor call throws inside \<open>try\<close>.\<close>

lemma POST_try_throws_only_vendor:
  assumes "POST_try env request = Inl e"
  shows "\<exists>m. google env m = Some e"
  using assms
  by (auto simp: POST_try_def Let_def split: if_splits sum.splits option.splits prod.splits)

text \<open>
  C5. For the body \<open>{ prompt: "A sunset over mountains" }\<close> with the credential set (and
  the vendor's model factory returning), the response is a success with dimensions
  512 by 512 and the prompt echoed unchanged.
\<close>

theorem POST_sunset_over_mountains:
  assumes "GOOGLE_AI_API_KEY env = Some k" "k \<noteq> []"
    and "google env default_model = None"
  shows "POST env (Some (JObj [(lit ''prompt'', JStr (lit ''A sunset over mountains''))])) =
           Inr \<lparr>status = 200,
                body = SuccessResponse (placeholderImageUrl env (lit ''A sunset over mountains''))
                         (randomUUID env) (now env) \<lparr>width = 512, height = 512\<rparr>
                         (lit ''A sunset over mountains'') default_model\<rparr>"
proof -
  have "trim (lit ''A sunset over mountains'') = lit ''A sunset over mountains''"
    by (simp add: trim_def lit_def isWhiteSpace_def)
  then have "ImageGenerationRequestSchema (typeErrorMessage env)
          (JObj [(lit ''prompt'', JStr (lit ''A sunset over mountains''))])
        = Inr (lit ''A sunset over mountains'', default_model)"
    by (simp add: property_def parse_model_def lit_def)
  from POST_accepted[OF assms(1,2) this assms(3)] show ?thesis .
qed

theorem POST_sunset_over_mountains_witness:
  "GOOGLE_AI_API_KEY sample_env = Some (lit ''test-api-key'') \<and>
   google sample_env default_model = None \<and>
   map_sum id (dimensions \<circ> body) (POST sample_env
       (Some (JObj [(lit ''prompt'', JStr (lit ''A sunset over mountains''))])))
     = Inr \<lparr>width = 512, height = 512\<rparr> \<and>
   map_sum id (prompt \<circ> body) (POST sample_env
       (Some (JObj [(lit ''prompt'', JStr (lit ''A sunset over mountains''))])))
     = Inr (lit ''A sunset over mountains'')"
proof -
  have vendor: "google sample_env default_model = None"
    by (simp add: sample_env_def)
  show ?thesis
    using sample_env_key(1) vendor POST_sunset_over_mountains[OF sample_env_key vendor] by simp
qed

text \<open>
  C7. With the credential set, a prompt longer than 1000 code units is answered with 400
  and \<open>INVALID_PROMPT\<close>, whatever else the body holds.
\<close>

theorem POST_prompt_too_long:
  assumes key: "GOOGLE_AI_API_KEY env = Some k" "k \<noteq> []"
    and prompt: "property kvs ''prompt'' = Some (JStr p)"
    and len: "length p > 1000"
  shows "\<exists>msg d. POST env (Some (JObj kvs)) =
           Inr \<lparr>status = 400,
                body = ErrorResponse INVALID_PROMPT msg (randomUUID env) (now env) d\<rparr>"
proof -
  have "\<exists>i. parse_prompt (typeErrorMessage env) (property kvs ''prompt'') = Inl i"
    using prompt parse_prompt_too_long[OF len] by simp
  then obtain issues where
    "ImageGenerationRequestSchema (typeErrorMessage env) (JObj kvs) = Inl issues"
    using schema_rejects by blast
  from POST_rejected[OF key this] show ?thesis by blast
qed

theorem POST_prompt_too_long_witness:
  "length (replicate 1001 (of_char CHR ''A'') :: jsstring) > 1000 \<and>
   (\<exists>msg d.
      POST sample_env (Some (JObj [(lit ''prompt'', JStr (replicate 1001 (of_char CHR ''A'')))])) =
        Inr \<lparr>status = 400,
             body = ErrorResponse INVALID_PROMPT msg (randomUUID sample_env) (now sample_env) d\<rparr>)"
proof -
  have prompt: "property [(lit ''prompt'', JStr (replicate 1001 (of_char CHR ''A'')))] ''prompt''
                = Some (JStr (replicate 1001 (of_char CHR ''A'')))"
    by (simp add: property_def)
  have len: "length (replicate 1001 (of_char CHR ''A'') :: jsstring) > 1000"
    by simp
  show ?thesis
    using len POST_prompt_too_long[OF sample_env_key prompt len] by simp
qed

text \<open>
  C10. With the credential set, a body whose \<open>model\<close> field is present and is anything
  but the string \<open>gemini-2.5-flash-image-preview\<close> is answered with 400 and the code
  \<open>INVALID_PROMPT\<close>, whatever the prompt is.
\<close>

theorem POST_other_model_rejected:
  assumes key: "GOOGLE_AI_API_KEY env = Some k" "k \<noteq> []"
    and model: "property kvs ''model'' = Some v" "v \<noteq> JStr default_model"
  shows "\<exists>msg d. POST env (Some (JObj kvs)) =
           Inr \<lparr>status = 400,
                body = ErrorResponse INVALID_PROMPT msg (randomUUID env) (now env) d\<rparr>"
proof -
  have "\<exists>i. parse_model (typeErrorMessage env) (property kvs ''model'') = Inl i"
    using model parse_model_other by simp
  then obtain issues where
    "ImageGenerationRequestSchema (typeErrorMessage env) (JObj kvs) = Inl issues"
    using schema_rejects by blast
  from POST_rejected[OF key this] show ?thesis by blast
qed

theorem POST_other_model_rejected_witness:
  "property [(lit ''prompt'', JStr (lit ''A cat'')), (lit ''model'', JStr (lit ''gpt-4''))] ''model''
     = Some (JStr (lit ''gpt-4'')) \<and>
   JStr (lit ''gpt-4'') \<noteq> JStr default_model \<and>
   (\<exists>msg d.
      POST sample_env
        (Some (JObj [(lit ''prompt'', JStr (lit ''A cat'')), (lit ''model'', JStr (lit ''gpt-4''))])) =
        Inr \<lparr>status = 400,
             body = ErrorResponse INVALID_PROMPT msg (randomUUID sample_env) (now sample_env) d\<rparr>)"
proof -
  have model: "property [(lit ''prompt'', JStr (lit ''A cat'')),
                         (lit ''model'', JStr (lit ''gpt-4''))] ''model''
               = Some (JStr (lit ''gpt-4''))"
    by (simp add: property_def lit_def)
  have other: "JStr (lit ''gpt-4'') \<noteq> JStr default_model"
    by (simp add: default_model_def lit_def)
  show ?thesis
    using model other POST_other_model_rejected[OF sample_env_key model other] by simp
qed


section \<open>The other methods\<close>

text \<open>
  C6. \<open>GET\<close>, \<open>PUT\<close> and \<open>DELETE\<close> each answer 405 with an error envelope of the shape
  \<open>POST\<close> failures have: \<open>success\<close> false, a code of the fixed set (\<open>INTERNAL_ERROR\<close>), the
  message, a request identifier and the timestamp.
\<close>

theorem other_methods_not_allowed:
  "GET env = \<lparr>status = 405,
     body = ErrorResponse INTERNAL_ERROR (lit ''Method not allowed. Use POST to generate images'')
              (randomUUID env) (now env) None\<rparr> \<and>
   PUT env = \<lparr>status = 405,
     body = ErrorResponse INTERNAL_ERROR (lit ''Method not allowed. Use POST to generate images'')
              (randomUUID env) (now env) None\<rparr> \<and>
   DELETE env = \<lparr>status = 405,
     body = ErrorResponse INTERNAL_ERROR (lit ''Method not allowed. Use POST to generate images'')
              (randomUUID env) (now env) None\<rparr> \<and>
   \<not> success (body (GET env)) \<and> \<not> success (body (PUT env)) \<and> \<not> success (body (DELETE env))"
  by (simp add: GET_def PUT_def DELETE_def)


section \<open>The retry loop of the hook\<close>

text \<open>
  The effect of the hook does nothing after the loading and the success update, which
  leave no error, and clears the message after the final error update when the input is
  valid.
\<close>

lemma timeouts_append: "timeouts (xs @ ys) = timeouts xs @ timeouts ys"
  by (induction xs rule: timeouts.induct) simp_all

lemma isValid_inputValue: "inputValue a = inputValue b \<Longrightarrow> isValid opts a = isValid opts b"
  by (simp add: isValid_def)

lemma useEffect_no_error: "ui_error (fst r) = None \<Longrightarrow> useEffect opts r = r"
  by (simp add: useEffect_def)

lemma useEffect_loading:
  "useEffect opts (emit ev (setState (loadingState q) r)) = emit ev (setState (loadingState q) r)"
  by (rule useEffect_no_error) (simp add: emit_def setState_def loadingState_def)

lemma useEffect_success:
  "useEffect opts (emit ev (setState (successState q img) r))
     = emit ev (setState (successState q img) r)"
  by (rule useEffect_no_error) (simp add: emit_def setState_def successState_def)

lemma useEffect_error:
  assumes "m \<noteq> []"
  shows "useEffect opts (emit (OnError m) (setState (errorState q m) r)) =
           (if isValid opts (fst r)
            then (clearError (errorState q m (fst r)),
                  snd r @ [SetState (errorState q m (fst r)), OnError m,
                           SetState (clearError (errorState q m (fst r)))])
            else (errorState q m (fst r),
                  snd r @ [SetState (errorState q m (fst r)), OnError m]))"
proof -
  have "isValid opts (errorState q m (fst r)) = isValid opts (fst r)"
    by (rule isValid_inputValue) (simp add: errorState_def)
  then show ?thesis
    using assms by (simp add: useEffect_def emit_def setState_def errorState_def)
qed

lemma final_message_nonempty:
  "or_else m (lit ''Failed to generate image. Please try again.'') \<noteq> []"
  by (simp add: or_else_def lit_def)

lemma generateImage_invalid:
  assumes "validateInput opts"
    and "first_issue (trim input) (lit ''Please provide a valid prompt'') = Some m"
  shows "generateImage opts env input rc r =
           Some (useEffect opts
                  (emit (OnError m) (setState (\<lambda>prev. prev\<lparr>ui_error := Some m\<rparr>) r)))"
  using assms by (simp add: generateImage.simps[of opts env input rc r])

lemma generateImage_success:
  assumes "validateInput opts \<longrightarrow>
             first_issue (trim input) (lit ''Please provide a valid prompt'') = None"
    and "fetch_try (env rc) (trim input) = Inr img"
  shows "generateImage opts env input rc r =
           Some (emit (OnSuccess img)
             (setState (successState (new_request (env rc) (trim input)) img)
               (emit (Fetch (trim input) (lit ''gemini-2.5-flash-image-preview''))
                 (setState (loadingState (new_request (env rc) (trim input))) r))))"
  using assms
  by (cases "validateInput opts")
     (simp_all add: generateImage.simps[of opts env input rc r] Let_def
        useEffect_loading useEffect_success)

lemma generateImage_retry:
  assumes "validateInput opts \<longrightarrow>
             first_issue (trim input) (lit ''Please provide a valid prompt'') = None"
    and "fetch_try (env rc) (trim input) = Inl e"
    and "shouldRetry opts rc (thrown_message e)"
  shows "generateImage opts env input rc r =
           generateImage opts env input (plus_one rc)
             (emit (SetTimeout (backoff rc))
               (emit (Fetch (trim input) (lit ''gemini-2.5-flash-image-preview''))
                 (setState (loadingState (new_request (env rc) (trim input))) r)))"
  using assms
  by (cases "validateInput opts")
     (simp_all add: generateImage.simps[of opts env input rc r] Let_def useEffect_loading)

lemma generateImage_error:
  assumes "validateInput opts \<longrightarrow>
             first_issue (trim input) (lit ''Please provide a valid prompt'') = None"
    and "fetch_try (env rc) (trim input) = Inl e"
    and "\<not> shouldRetry opts rc (thrown_message e)"
  shows "generateImage opts env input rc r =
           Some (useEffect opts
             (emit (OnError (or_else (thrown_message e)
                              (lit ''Failed to generate image. Please try again.'')))
               (setState (errorState (new_request (env rc) (trim input))
                            (or_else (thrown_message e)
                               (lit ''Failed to generate image. Please try again.'')))
                 (emit (Fetch (trim input) (lit ''gemini-2.5-flash-image-preview''))
                   (setState (loadingState (new_request (env rc) (trim input))) r)))))"
  using assms
  by (cases "validateInput opts")
     (simp_all add: generateImage.simps[of opts env input rc r] Let_def useEffect_loading)


lemma retry_budget:
  assumes "\<not> lt_number (2 ^ 53) m"
  shows "\<exists>b. \<forall>k. lt_number k m \<longrightarrow> k < b \<and> k < 2 ^ 53"
proof (cases m)
  case (Number q)
  have "k < nat \<lceil>q\<rceil> \<and> k < 2 ^ 53" if "of_nat k < q" for k :: nat
  proof
    from that have "of_nat k < (of_int \<lceil>q\<rceil> :: rat)"
      by (rule less_le_trans) (rule le_of_int_ceiling)
    then have "int k < \<lceil>q\<rceil>" by simp
    then show "k < nat \<lceil>q\<rceil>" by simp
    from assms Number have "q \<le> of_nat (2 ^ 53)" by simp
    with that have "(of_nat k :: rat) < of_nat (2 ^ 53)" by (rule less_le_trans)
    then show "k < 2 ^ 53" by (simp only: of_nat_less_iff)
  qed
  then show ?thesis using Number by auto
next
  case Infinity
  with assms show ?thesis by simp
next
  case MinusInfinity
  then show ?thesis by simp
next
  case NaN
  then show ?thesis by simp
qed

lemma generateImage_run:
  assumes valid: "validateInput opts \<longrightarrow>
             first_issue (trim input) (lit ''Please provide a valid prompt'') = None"
    and budget: "\<forall>k. lt_number k (maxRetries opts) \<longrightarrow> k < b \<and> k < 2 ^ 53"
  shows "\<exists>res n.
           generateImage opts env input rc r = Some res \<and>
           timeouts (snd res) = timeouts (snd r) @ map backoff [rc..<rc + n] \<and>
           (\<forall>k \<in> {rc..<rc + n}.
              \<exists>e. fetch_try (env k) (trim input) = Inl e \<and> shouldRetry opts k (thrown_message e)) \<and>
           (\<forall>img. fetch_try (env (rc + n)) (trim input) = Inr img \<longrightarrow>
              fst res = successState (new_request (env (rc + n)) (trim input)) img
                          (loadingState (new_request (env (rc + n)) (trim input)) (fst r))) \<and>
           (\<forall>e. fetch_try (env (rc + n)) (trim input) = Inl e \<longrightarrow>
              \<not> shouldRetry opts (rc + n) (thrown_message e) \<and>
              (\<exists>tr. res = useEffect opts
                 (emit (OnError (or_else (thrown_message e)
                                  (lit ''Failed to generate image. Please try again.'')))
                   (setState (errorState (new_request (env (rc + n)) (trim input))
                                (or_else (thrown_message e)
                                   (lit ''Failed to generate image. Please try again.'')))
                     (loadingState (new_request (env (rc + n)) (trim input)) (fst r), tr)))))"
proof -
  let ?fallback = "lit ''Failed to generate image. Please try again.''"
  let ?P = "\<lambda>rc r res n.
           generateImage opts env input rc r = Some res \<and>
           timeouts (snd res) = timeouts (snd r) @ map backoff [rc..<rc + n] \<and>
           (\<forall>k \<in> {rc..<rc + n}.
              \<exists>e. fetch_try (env k) (trim input) = Inl e \<and> shouldRetry opts k (thrown_message e)) \<and>
           (\<forall>img. fetch_try (env (rc + n)) (trim input) = Inr img \<longrightarrow>
              fst res = successState (new_request (env (rc + n)) (trim input)) img
                          (loadingState (new_request (env (rc + n)) (trim input)) (fst r))) \<and>
           (\<forall>e. fetch_try (env (rc + n)) (trim input) = Inl e \<longrightarrow>
              \<not> shouldRetry opts (rc + n) (thrown_message e) \<and>
              (\<exists>tr. res = useEffect opts
                 (emit (OnError (or_else (thrown_message e) ?fallback))
                   (setState (errorState (new_request (env (rc + n)) (trim input))
                                (or_else (thrown_message e) ?fallback))
                     (loadingState (new_request (env (rc + n)) (trim input)) (fst r), tr)))))"
  have settle_ok: "\<exists>res. ?P rc r res 0" if "fetch_try (env rc) (trim input) = Inr img" for rc r img
    using that
    by (simp add: generateImage_success[where env=env and rc=rc, OF valid that]
        emit_def setState_def timeouts_append)
  have settle_err: "\<exists>res. ?P rc r res 0"
    if f: "fetch_try (env rc) (trim input) = Inl e"
      and s: "\<not> shouldRetry opts rc (thrown_message e)"
    for rc r e
  proof -
    let ?q = "new_request (env rc) (trim input)"
    let ?m = "or_else (thrown_message e) ?fallback"
    let ?tr = "snd r @ [SetState (loadingState ?q (fst r)),
                        Fetch (trim input) (lit ''gemini-2.5-flash-image-preview'')]"
    let ?res = "useEffect opts (emit (OnError ?m)
                  (setState (errorState ?q ?m) (loadingState ?q (fst r), ?tr)))"
    have g: "generateImage opts env input rc r = Some ?res"
      by (simp add: generateImage_error[where env=env and rc=rc, OF valid f s]
          emit_def setState_def)
    have t: "timeouts (snd ?res) = timeouts (snd r)"
      by (simp add: useEffect_error[OF final_message_nonempty] timeouts_append)
    have P: "?P rc r ?res 0"
      using g t f s by auto
    show ?thesis by (rule exI[where x="?res"]) (rule P)
  qed
  have retry: "?P rc r res (Suc n)"
    if f: "fetch_try (env rc) (trim input) = Inl e"
      and s: "shouldRetry opts rc (thrown_message e)"
      and n: "?P (Suc rc)
               (emit (SetTimeout (backoff rc))
                 (emit (Fetch (trim input) (lit ''gemini-2.5-flash-image-preview''))
                   (setState (loadingState (new_request (env rc) (trim input))) r))) res n"
    for rc r e n res
  proof -
    let ?r' = "emit (SetTimeout (backoff rc))
               (emit (Fetch (trim input) (lit ''gemini-2.5-flash-image-preview''))
                 (setState (loadingState (new_request (env rc) (trim input))) r))"
    from s have "lt_number rc (maxRetries opts)" by (simp add: shouldRetry_def)
    with budget have "rc < 2 ^ 53" by blast
    then have p: "plus_one rc = Suc rc" by (simp add: plus_one_def)
    have step: "generateImage opts env input rc r = generateImage opts env input (Suc rc) ?r'"
      using generateImage_retry[where env=env and rc=rc, OF valid f s] by (simp add: p)
    have fst_r': "loadingState q (fst ?r') = loadingState q (fst r)" for q
      by (simp add: emit_def setState_def loadingState_def)
    have tms_r': "timeouts (snd ?r') = timeouts (snd r) @ [backoff rc]"
      by (simp add: emit_def setState_def timeouts_append)
    have c0: "generateImage opts env input rc r = Some res"
      using n by (simp add: step)
    have c2: "timeouts (snd res) = timeouts (snd r) @ map backoff [rc..<rc + Suc n]"
    proof -
      from n have t: "timeouts (snd res) = timeouts (snd ?r') @ map backoff [Suc rc..<Suc rc + n]"
        by (elim conjE)
      have u: "[rc..<rc + Suc n] = rc # [Suc rc..<Suc rc + n]"
        by (subst upt_rec) simp
      show ?thesis unfolding t tms_r' u by simp
    qed
    have c3: "\<forall>k \<in> {rc..<rc + Suc n}.
            \<exists>e. fetch_try (env k) (trim input) = Inl e \<and> shouldRetry opts k (thrown_message e)"
    proof
      fix k assume k: "k \<in> {rc..<rc + Suc n}"
      show "\<exists>e. fetch_try (env k) (trim input) = Inl e \<and> shouldRetry opts k (thrown_message e)"
      proof (cases "k = rc")
        case True
        then show ?thesis using f s by blast
      next
        case False
        then have k': "k \<in> {Suc rc..<Suc rc + n}" using k by simp
        from n have "\<forall>k \<in> {Suc rc..<Suc rc + n}.
            \<exists>e. fetch_try (env k) (trim input) = Inl e \<and> shouldRetry opts k (thrown_message e)"
          by simp
        then show ?thesis using k' by (rule bspec)
      qed
    qed
    have c4: "\<forall>img. fetch_try (env (rc + Suc n)) (trim input) = Inr img \<longrightarrow>
              fst res = successState (new_request (env (rc + Suc n)) (trim input)) img
                          (loadingState (new_request (env (rc + Suc n)) (trim input)) (fst r))"
      using n by (simp add: fst_r')
    have c5: "\<forall>e. fetch_try (env (rc + Suc n)) (trim input) = Inl e \<longrightarrow>
              \<not> shouldRetry opts (rc + Suc n) (thrown_message e) \<and>
              (\<exists>tr. res = useEffect opts
                 (emit (OnError (or_else (thrown_message e) ?fallback))
                   (setState (errorState (new_request (env (rc + Suc n)) (trim input))
                                (or_else (thrown_message e) ?fallback))
                     (loadingState (new_request (env (rc + Suc n)) (trim input)) (fst r), tr))))"
      using n by (simp add: fst_r')
    from c0 c2 c3 c4 c5 show ?thesis by (intro conjI)
  qed
  have main: "\<exists>res n. ?P rc r res n" if "d = b - rc" for d rc r
    using that
  proof (induction d arbitrary: rc r)
    case 0
    show ?case
    proof (cases "fetch_try (env rc) (trim input)")
      case (Inr img)
      from settle_ok[OF Inr] obtain res where P: "?P rc r res 0" by (rule exE)
      show ?thesis by (rule exI[where x=res], rule exI[where x=0], rule P)
    next
      case (Inl e)
      have "\<not> lt_number rc (maxRetries opts)"
      proof
        assume "lt_number rc (maxRetries opts)"
        with budget have "rc < b" by blast
        with 0 show False by simp
      qed
      then have "\<not> shouldRetry opts rc (thrown_message e)"
        by (simp add: shouldRetry_def)
      from settle_err[OF Inl this] obtain res where P: "?P rc r res 0" by (rule exE)
      show ?thesis by (rule exI[where x=res], rule exI[where x=0], rule P)
    qed
  next
    case (Suc d)
    show ?case
    proof (cases "fetch_try (env rc) (trim input)")
      case (Inr img)
      from settle_ok[OF Inr] obtain res where P: "?P rc r res 0" by (rule exE)
      show ?thesis by (rule exI[where x=res], rule exI[where x=0], rule P)
    next
      case (Inl e)
      show ?thesis
      proof (cases "shouldRetry opts rc (thrown_message e)")
        case False
        from settle_err[OF Inl False] obtain res where P: "?P rc r res 0" by (rule exE)
        show ?thesis by (rule exI[where x=res], rule exI[where x=0], rule P)
      next
        case True
        let ?r' = "emit (SetTimeout (backoff rc))
                     (emit (Fetch (trim input) (lit ''gemini-2.5-flash-image-preview''))
                       (setState (loadingState (new_request (env rc) (trim input))) r))"
        have "d = b - Suc rc" using Suc.prems by simp
        from Suc.IH[OF this, of ?r'] obtain res where "\<exists>n. ?P (Suc rc) ?r' res n"
          by (rule exE)
        then obtain n where "?P (Suc rc) ?r' res n"
          by (rule exE)
        then have P: "?P rc r res (Suc n)" by (rule retry[OF Inl True])
        show ?thesis by (rule exI[where x=res], rule exI[where x="Suc n"], rule P)
      qed
    qed
  qed
  from main[OF refl] show ?thesis .
qed


lemma timeouts_useEffect: "timeouts (snd (useEffect opts r)) = timeouts (snd r)"
  by (simp add: useEffect_def setState_def timeouts_append)

lemma useImageGeneration_invalid:
  assumes "validateInput opts"
    and "first_issue (trim (inputValue st)) (lit ''Please provide a valid prompt'') = Some m"
  shows "\<exists>res. useImageGeneration_generateImage opts env st = Some res \<and> timeouts (snd res) = []"
  by (simp add: useImageGeneration_generateImage_def generateImage_invalid[OF assms]
      timeouts_useEffect emit_def setState_def)

lemma retries_whole_number:
  assumes "\<forall>k<n. lt_number k (Number (of_nat m))"
  shows "n \<le> m"
proof (cases n)
  case 0
  then show ?thesis by simp
next
  case (Suc j)
  with assms have "lt_number j (Number (of_nat m))" by simp
  then have "j < m" by simp
  with Suc show ?thesis by simp
qed

lemma backoff_exact:
  assumes "n \<le> 1015"
  shows "map backoff [0..<n] = map (\<lambda>k. Number (of_nat (2 ^ k * 1000))) [0..<n]"
  using assms by (auto simp: backoff_def)

lemma generateImage_never_returns:
  assumes valid: "validateInput opts \<longrightarrow>
             first_issue (trim input) (lit ''Please provide a valid prompt'') = None"
    and always: "\<And>k. \<exists>e. fetch_try (env k) (trim input) = Inl e \<and>
                          shouldRetry opts k (thrown_message e)"
  shows "generateImage opts env input rc r = None"
proof (rule ccontr)
  assume "generateImage opts env input rc r \<noteq> None"
  then obtain y where y: "generateImage opts env input rc r = Some y" by auto
  have "\<not> (opts = opts \<and> env = env \<and> input = input)"
    apply (rule generateImage.raw_induct
        [where P = "\<lambda>o' e' i' rc' r' y'. \<not> (o' = opts \<and> e' = env \<and> i' = input)", OF _ y])
    subgoal premises prems for f o' e' i' rc' r' y'
    proof
      assume eq: "o' = opts \<and> e' = env \<and> i' = input"
      from always obtain err where err: "fetch_try (env rc') (trim input) = Inl err"
        "shouldRetry opts rc' (thrown_message err)" by blast
      from prems(2) eq valid err have "\<exists>r''. f opts env input (plus_one rc') r'' = Some y'"
        by (cases "validateInput opts") (simp_all add: Let_def del: split_paired_Ex, blast+)
      then obtain r'' where "f opts env input (plus_one rc') r'' = Some y'" ..
      from prems(1)[OF this] show False by simp
    qed
    done
  then show False by simp
qed

lemma a_cat_valid:
  "first_issue (trim (lit ''a cat'')) (lit ''Please provide a valid prompt'') = None"
  by (simp add: first_issue_def ClientFormSchema_def trim_def isWhiteSpace_def lit_def)

lemma network_down_fails:
  "fetch_try (network_down k) p = Inl (JsError (lit ''network down'') None)"
  by (simp add: fetch_try_def network_down_def)

lemma network_down_transient:
  "str_includes (thrown_message (JsError (lit ''network down'') None)) (lit ''network'')"
  by (simp add: thrown_message_def lit_def)

text \<open>
  C8, as it was stated, fails: the hook takes \<open>maxRetries\<close> as it is given. With
  \<open>maxRetries = Infinity\<close> and a fetch that fails with a network error every time,
  \<open>retryCount < maxRetries\<close> holds at every attempt and the run never ends.
\<close>

theorem generateImage_unbounded_counterexample:
  "useImageGeneration_generateImage unlimited_options network_down
     (initialState\<lparr>inputValue := lit ''a cat''\<rparr>) = None"
proof -
  have valid: "validateInput unlimited_options \<longrightarrow>
      first_issue (trim (lit ''a cat'')) (lit ''Please provide a valid prompt'') = None"
    using a_cat_valid by simp
  have always: "\<exists>e. fetch_try (network_down k) (trim (lit ''a cat'')) = Inl e \<and>
                    shouldRetry unlimited_options k (thrown_message e)" for k
    using network_down_fails network_down_transient
    by (auto simp: shouldRetry_def unlimited_options_def)
  show ?thesis
    unfolding useImageGeneration_generateImage_def
    using generateImage_never_returns[where env=network_down, OF valid always]
    by simp
qed


text \<open>
  A limit that is not a whole number lets one more retry through than its whole part:
  with \<open>maxRetries = 2.5\<close> the attempts 0, 1 and 2 are retried.
\<close>

lemma fractional_limit_three_retries:
  "\<exists>res. useImageGeneration_generateImage fractional_options network_down
            (initialState\<lparr>inputValue := lit ''a cat''\<rparr>) = Some res \<and>
         timeouts (snd res) = [Number 1000, Number 2000, Number 4000]"
proof -
  let ?st = "initialState\<lparr>inputValue := lit ''a cat''\<rparr>"
  let ?e = "JsError (lit ''network down'') None"
  let ?r = "(?st, []) :: run"
  have valid: "validateInput fractional_options \<longrightarrow>
      first_issue (trim (lit ''a cat'')) (lit ''Please provide a valid prompt'') = None"
    using a_cat_valid by simp
  have less: "lt_number k (maxRetries fractional_options) \<longleftrightarrow> k < 3" for k
  proof -
    have "(of_nat k < (5 / 2 :: rat)) \<longleftrightarrow> (of_nat (2 * k) < (of_nat 5 :: rat))"
      by (simp add: mult.commute)
    also have "\<dots> \<longleftrightarrow> 2 * k < 5" by (simp only: of_nat_less_iff)
    also have "\<dots> \<longleftrightarrow> k < 3" by arith
    finally show ?thesis by (simp add: fractional_options_def)
  qed
  have budget: "\<forall>k. lt_number k (maxRetries fractional_options) \<longrightarrow> k < 3 \<and> k < 2 ^ 53"
    by (simp add: less)
  let ?tp = "trim (lit ''a cat'')"
  let ?fallback = "lit ''Failed to generate image. Please try again.''"
  let ?Q = "\<lambda>res n.
      generateImage fractional_options network_down (lit ''a cat'') 0 ?r = Some res \<and>
      timeouts (snd res) = timeouts (snd ?r) @ map backoff [0..<0 + n] \<and>
      (\<forall>k \<in> {0..<0 + n}. \<exists>e. fetch_try (network_down k) ?tp = Inl e \<and>
                shouldRetry fractional_options k (thrown_message e)) \<and>
      (\<forall>img. fetch_try (network_down (0 + n)) ?tp = Inr img \<longrightarrow>
          fst res = successState (new_request (network_down (0 + n)) ?tp) img
                    (loadingState (new_request (network_down (0 + n)) ?tp) (fst ?r))) \<and>
      (\<forall>e. fetch_try (network_down (0 + n)) ?tp = Inl e \<longrightarrow>
          \<not> shouldRetry fractional_options (0 + n) (thrown_message e) \<and>
          (\<exists>tr. res = useEffect fractional_options
             (emit (OnError (or_else (thrown_message e) ?fallback))
               (setState (errorState (new_request (network_down (0 + n)) ?tp)
                            (or_else (thrown_message e) ?fallback))
                 (loadingState (new_request (network_down (0 + n)) ?tp) (fst ?r), tr)))))"
  from generateImage_run[OF valid budget, of network_down 0 ?r]
  obtain res where "\<exists>n. ?Q res n" by (rule exE)
  then obtain n where n: "?Q res n" by (rule exE)
  from n have res: "generateImage fractional_options network_down (lit ''a cat'') 0 ?r = Some res"
    by (rule conjunct1)
  from n have tms: "timeouts (snd res) = map backoff [0..<n]"
    by simp
  from n have tr: "\<forall>k \<in> {0..<0 + n}. \<exists>e. fetch_try (network_down k) ?tp = Inl e \<and>
                shouldRetry fractional_options k (thrown_message e)"
    by (elim conjE)
  from n have fin: "\<forall>e. fetch_try (network_down (0 + n)) ?tp = Inl e \<longrightarrow>
          \<not> shouldRetry fractional_options (0 + n) (thrown_message e) \<and>
          (\<exists>tr. res = useEffect fractional_options
             (emit (OnError (or_else (thrown_message e) ?fallback))
               (setState (errorState (new_request (network_down (0 + n)) ?tp)
                            (or_else (thrown_message e) ?fallback))
                 (loadingState (new_request (network_down (0 + n)) ?tp) (fst ?r), tr))))"
    by (elim conjE)
  have "n \<le> 3"
  proof (cases n)
    case 0
    then show ?thesis by simp
  next
    case (Suc j)
    then have j: "j \<in> {0..<0 + n}" by simp
    from tr j have "\<exists>e. fetch_try (network_down j) (trim (lit ''a cat'')) = Inl e \<and>
                  shouldRetry fractional_options j (thrown_message e)"
      by (rule bspec)
    then have "j < 3" by (auto simp: shouldRetry_def less)
    with Suc show ?thesis by simp
  qed
  moreover have "3 \<le> n"
  proof -
    from fin network_down_fails[of "0 + n" "trim (lit ''a cat'')"]
    have "\<not> shouldRetry fractional_options (0 + n) (thrown_message ?e)" by blast
    with network_down_transient have "\<not> n < 3" by (simp add: shouldRetry_def less)
    then show ?thesis by simp
  qed
  ultimately have n3: "n = 3" by simp
  have "[0..<3] = [0, 1, 2]" by (simp add: upt_rec)
  with tms n3 have "timeouts (snd res) = [Number 1000, Number 2000, Number 4000]"
    by (simp add: backoff_def)
  with res show ?thesis
    by (simp add: useImageGeneration_generateImage_def)
qed

text \<open>
  C8, as the code has it. Let \<open>maxRetries\<close> be any number that is not above \<open>2 ^ 53\<close>
  (NaN and the negative numbers are among them). Then every run of the hook's
  \<open>generateImage\<close> ends, whatever the fetches do. It makes some number n of retries. An
  attempt k is retried only when \<open>k < maxRetries\<close> and its error message contains
  \<open>network\<close>, \<open>timeout\<close>, \<open>503\<close> or \<open>502\<close>, so n is at most \<open>maxRetries\<close> when that is a
  whole number (3 by default). The delay handed to \<open>setTimeout\<close> before the retry that
  follows attempt k is \<open>Math.pow(2, k) * 1000\<close> milliseconds, which is \<open>2 ^ k\<close> seconds for
  every k up to 1014. When attempt n fails too (and the input was valid), either
  \<open>n < maxRetries\<close> is false or the message has none of the four substrings; the run then
  makes the final error update (not loading, the request marked \<open>error\<close>, the message
  set) and reports the message to \<open>onError\<close>, after which the effect of the hook clears
  the message again if the input is valid.
\<close>

theorem generateImage_retries_bounded:
  assumes limit: "\<not> lt_number (2 ^ 53) (maxRetries opts)"
  shows "\<exists>res n.
     useImageGeneration_generateImage opts env st = Some res \<and>
     timeouts (snd res) = map backoff [0..<n] \<and>
     (n \<le> 1015 \<longrightarrow>
        timeouts (snd res) = map (\<lambda>k. Number (of_nat (2 ^ k * 1000))) [0..<n]) \<and>
     (\<forall>m. maxRetries opts = Number (of_nat m) \<longrightarrow> n \<le> m) \<and>
     (\<forall>k<n. lt_number k (maxRetries opts) \<and>
        (\<exists>e. fetch_try (env k) (trim (inputValue st)) = Inl e \<and>
           (str_includes (thrown_message e) (lit ''network'') \<or>
            str_includes (thrown_message e) (lit ''timeout'') \<or>
            str_includes (thrown_message e) (lit ''503'') \<or>
            str_includes (thrown_message e) (lit ''502'')))) \<and>
     (\<forall>e. (validateInput opts \<longrightarrow>
            first_issue (trim (inputValue st)) (lit ''Please provide a valid prompt'') = None) \<and>
          fetch_try (env n) (trim (inputValue st)) = Inl e \<longrightarrow>
        (\<not> lt_number n (maxRetries opts) \<or>
         \<not> (str_includes (thrown_message e) (lit ''network'') \<or>
            str_includes (thrown_message e) (lit ''timeout'') \<or>
            str_includes (thrown_message e) (lit ''503'') \<or>
            str_includes (thrown_message e) (lit ''502''))) \<and>
        (\<exists>tr. snd res =
           tr @ [SetState
                   (errorState (new_request (env n) (trim (inputValue st)))
                      (or_else (thrown_message e)
                         (lit ''Failed to generate image. Please try again.''))
                      (loadingState (new_request (env n) (trim (inputValue st))) st)),
                 OnError (or_else (thrown_message e)
                            (lit ''Failed to generate image. Please try again.''))]
              @ (if isValid opts st
                 then [SetState (clearError
                   (errorState (new_request (env n) (trim (inputValue st)))
                      (or_else (thrown_message e)
                         (lit ''Failed to generate image. Please try again.''))
                      (loadingState (new_request (env n) (trim (inputValue st))) st)))]
                 else [])) \<and>
        fst res =
          (if isValid opts st
           then clearError
                  (errorState (new_request (env n) (trim (inputValue st)))
                     (or_else (thrown_message e)
                        (lit ''Failed to generate image. Please try again.''))
                     (loadingState (new_request (env n) (trim (inputValue st))) st))
           else errorState (new_request (env n) (trim (inputValue st)))
                  (or_else (thrown_message e)
                     (lit ''Failed to generate image. Please try again.''))
                  (loadingState (new_request (env n) (trim (inputValue st))) st)))"
proof (cases "validateInput opts \<longrightarrow>
         first_issue (trim (inputValue st)) (lit ''Please provide a valid prompt'') = None")
  case False
  then obtain m where "validateInput opts"
    "first_issue (trim (inputValue st)) (lit ''Please provide a valid prompt'') = Some m"
    by auto
  from useImageGeneration_invalid[OF this, of env] obtain res where
    res: "useImageGeneration_generateImage opts env st = Some res" "timeouts (snd res) = []"
    by blast
  show ?thesis
    using res False by (intro exI[where x=res] exI[where x=0]) auto
next
  case True
  let ?tp = "trim (inputValue st)"
  let ?fallback = "lit ''Failed to generate image. Please try again.''"
  let ?r = "(st, []) :: run"
  from retry_budget[OF limit] obtain b where
    budget: "\<forall>k. lt_number k (maxRetries opts) \<longrightarrow> k < b \<and> k < 2 ^ 53" ..
  from generateImage_run[OF True budget, of env 0 ?r] obtain res where
    "\<exists>n. generateImage opts env (inputValue st) 0 ?r = Some res \<and>
      timeouts (snd res) = timeouts (snd ?r) @ map backoff [0..<0 + n] \<and>
      (\<forall>k \<in> {0..<0 + n}. \<exists>e. fetch_try (env k) ?tp = Inl e \<and>
                shouldRetry opts k (thrown_message e)) \<and>
      (\<forall>img. fetch_try (env (0 + n)) ?tp = Inr img \<longrightarrow>
          fst res = successState (new_request (env (0 + n)) ?tp) img
                    (loadingState (new_request (env (0 + n)) ?tp) (fst ?r))) \<and>
      (\<forall>e. fetch_try (env (0 + n)) ?tp = Inl e \<longrightarrow>
          \<not> shouldRetry opts (0 + n) (thrown_message e) \<and>
          (\<exists>tr. res = useEffect opts
             (emit (OnError (or_else (thrown_message e) ?fallback))
               (setState (errorState (new_request (env (0 + n)) ?tp)
                            (or_else (thrown_message e) ?fallback))
                 (loadingState (new_request (env (0 + n)) ?tp) (fst ?r), tr)))))"
    by (rule exE)
  then obtain n where
    n: "generateImage opts env (inputValue st) 0 ?r = Some res \<and>
      timeouts (snd res) = timeouts (snd ?r) @ map backoff [0..<0 + n] \<and>
      (\<forall>k \<in> {0..<0 + n}. \<exists>e. fetch_try (env k) ?tp = Inl e \<and>
                shouldRetry opts k (thrown_message e)) \<and>
      (\<forall>img. fetch_try (env (0 + n)) ?tp = Inr img \<longrightarrow>
          fst res = successState (new_request (env (0 + n)) ?tp) img
                    (loadingState (new_request (env (0 + n)) ?tp) (fst ?r))) \<and>
      (\<forall>e. fetch_try (env (0 + n)) ?tp = Inl e \<longrightarrow>
          \<not> shouldRetry opts (0 + n) (thrown_message e) \<and>
          (\<exists>tr. res = useEffect opts
             (emit (OnError (or_else (thrown_message e) ?fallback))
               (setState (errorState (new_request (env (0 + n)) ?tp)
                            (or_else (thrown_message e) ?fallback))
                 (loadingState (new_request (env (0 + n)) ?tp) (fst ?r), tr)))))"
    by (rule exE)
  have c0: "useImageGeneration_generateImage opts env st = Some res"
    using n by (simp add: useImageGeneration_generateImage_def)
  have c1: "timeouts (snd res) = map backoff [0..<n]"
    using n by simp
  have c2: "n \<le> 1015 \<longrightarrow>
        timeouts (snd res) = map (\<lambda>k. Number (of_nat (2 ^ k * 1000))) [0..<n]"
    using c1 backoff_exact by simp
  have retried: "lt_number k (maxRetries opts) \<and>
        (\<exists>e. fetch_try (env k) ?tp = Inl e \<and>
           (str_includes (thrown_message e) (lit ''network'') \<or>
            str_includes (thrown_message e) (lit ''timeout'') \<or>
            str_includes (thrown_message e) (lit ''503'') \<or>
            str_includes (thrown_message e) (lit ''502'')))" if "k < n" for k
  proof -
    from that have "k \<in> {0..<0 + n}" by simp
    with n obtain e where "fetch_try (env k) ?tp = Inl e" "shouldRetry opts k (thrown_message e)"
      by blast
    then show ?thesis by (auto simp: shouldRetry_def)
  qed
  have c3: "\<forall>m. maxRetries opts = Number (of_nat m) \<longrightarrow> n \<le> m"
  proof (intro allI impI)
    fix m assume "maxRetries opts = Number (of_nat m)"
    with retried have "\<forall>k<n. lt_number k (Number (of_nat m))" by simp
    then show "n \<le> m" by (rule retries_whole_number)
  qed
  have c4: "\<forall>k<n. lt_number k (maxRetries opts) \<and>
        (\<exists>e. fetch_try (env k) ?tp = Inl e \<and>
           (str_includes (thrown_message e) (lit ''network'') \<or>
            str_includes (thrown_message e) (lit ''timeout'') \<or>
            str_includes (thrown_message e) (lit ''503'') \<or>
            str_includes (thrown_message e) (lit ''502'')))"
    using retried by blast
  have c5: "\<forall>e. (validateInput opts \<longrightarrow>
            first_issue ?tp (lit ''Please provide a valid prompt'') = None) \<and>
          fetch_try (env n) ?tp = Inl e \<longrightarrow>
        (\<not> lt_number n (maxRetries opts) \<or>
         \<not> (str_includes (thrown_message e) (lit ''network'') \<or>
            str_includes (thrown_message e) (lit ''timeout'') \<or>
            str_includes (thrown_message e) (lit ''503'') \<or>
            str_includes (thrown_message e) (lit ''502''))) \<and>
        (\<exists>tr. snd res =
           tr @ [SetState
                   (errorState (new_request (env n) ?tp) (or_else (thrown_message e) ?fallback)
                      (loadingState (new_request (env n) ?tp) st)),
                 OnError (or_else (thrown_message e) ?fallback)]
              @ (if isValid opts st
                 then [SetState (clearError
                   (errorState (new_request (env n) ?tp) (or_else (thrown_message e) ?fallback)
                      (loadingState (new_request (env n) ?tp) st)))]
                 else [])) \<and>
        fst res =
          (if isValid opts st
           then clearError
                  (errorState (new_request (env n) ?tp) (or_else (thrown_message e) ?fallback)
                     (loadingState (new_request (env n) ?tp) st))
           else errorState (new_request (env n) ?tp) (or_else (thrown_message e) ?fallback)
                  (loadingState (new_request (env n) ?tp) st))"
  proof (intro allI impI)
    fix e
    let ?q = "new_request (env n) ?tp"
    let ?m = "or_else (thrown_message e) ?fallback"
    assume "(validateInput opts \<longrightarrow>
            first_issue ?tp (lit ''Please provide a valid prompt'') = None) \<and>
          fetch_try (env n) ?tp = Inl e"
    then have "fetch_try (env (0 + n)) ?tp = Inl e" by simp
    with n have no: "\<not> shouldRetry opts (0 + n) (thrown_message e)"
      and "\<exists>tr. res = useEffect opts
             (emit (OnError ?m)
               (setState (errorState (new_request (env (0 + n)) ?tp) ?m)
                 (loadingState (new_request (env (0 + n)) ?tp) (fst ?r), tr)))"
      by blast+
    then obtain tr where
      "res = useEffect opts (emit (OnError ?m)
               (setState (errorState ?q ?m) (loadingState ?q st, tr)))"
      by auto
    moreover have "isValid opts (loadingState ?q st) = isValid opts st"
      by (rule isValid_inputValue) (simp add: loadingState_def)
    ultimately have
      res: "res = (if isValid opts st
                   then (clearError (errorState ?q ?m (loadingState ?q st)),
                         tr @ [SetState (errorState ?q ?m (loadingState ?q st)), OnError ?m,
                               SetState (clearError (errorState ?q ?m (loadingState ?q st)))])
                   else (errorState ?q ?m (loadingState ?q st),
                         tr @ [SetState (errorState ?q ?m (loadingState ?q st)), OnError ?m]))"
      by (simp add: useEffect_error[OF final_message_nonempty])
    have a: "\<not> lt_number n (maxRetries opts) \<or>
         \<not> (str_includes (thrown_message e) (lit ''network'') \<or>
            str_includes (thrown_message e) (lit ''timeout'') \<or>
            str_includes (thrown_message e) (lit ''503'') \<or>
            str_includes (thrown_message e) (lit ''502''))"
      using no by (auto simp: shouldRetry_def)
    have b: "\<exists>tr. snd res =
           tr @ [SetState (errorState ?q ?m (loadingState ?q st)), OnError ?m]
              @ (if isValid opts st
                 then [SetState (clearError (errorState ?q ?m (loadingState ?q st)))]
                 else [])"
      by (rule exI[where x=tr]) (simp add: res)
    have c: "fst res =
          (if isValid opts st
           then clearError (errorState ?q ?m (loadingState ?q st))
           else errorState ?q ?m (loadingState ?q st))"
      by (simp add: res)
    from a b c show "(\<not> lt_number n (maxRetries opts) \<or>
         \<not> (str_includes (thrown_message e) (lit ''network'') \<or>
            str_includes (thrown_message e) (lit ''timeout'') \<or>
            str_includes (thrown_message e) (lit ''503'') \<or>
            str_includes (thrown_message e) (lit ''502''))) \<and>
        (\<exists>tr. snd res =
           tr @ [SetState (errorState ?q ?m (loadingState ?q st)), OnError ?m]
              @ (if isValid opts st
                 then [SetState (clearError (errorState ?q ?m (loadingState ?q st)))]
                 else [])) \<and>
        fst res =
          (if isValid opts st
           then clearError (errorState ?q ?m (loadingState ?q st))
           else errorState ?q ?m (loadingState ?q st))"
      by (intro conjI)
  qed
  show ?thesis
    by (rule exI[where x=res], rule exI[where x=n]) (intro conjI c0 c1 c2 c3 c4 c5)
qed


theorem generateImage_retries_bounded_witness:
  "\<not> lt_number (2 ^ 53) (maxRetries default_options) \<and>
   (\<exists>res. useImageGeneration_generateImage default_options network_down
             (initialState\<lparr>inputValue := lit ''a cat''\<rparr>) = Some res \<and>
      timeouts (snd res) = [Number 1000, Number 2000, Number 4000] \<and>
      \<not> isLoading (fst res) \<and> ui_error (fst res) = None \<and>
      map_option req_status (currentRequest (fst res)) = Some Error \<and>
      OnError (lit ''network down'') \<in> set (snd res))"
proof -
  let ?st = "initialState\<lparr>inputValue := lit ''a cat''\<rparr>"
  let ?e = "JsError (lit ''network down'') None"
  let ?fallback = "lit ''Failed to generate image. Please try again.''"
  have limit: "\<not> lt_number (2 ^ 53) (maxRetries default_options)"
    by (simp add: default_options_def)
  have three: "maxRetries default_options = Number (of_nat 3)"
    by (simp add: default_options_def)
  have valid: "validateInput default_options \<longrightarrow>
      first_issue (trim (inputValue ?st)) (lit ''Please provide a valid prompt'') = None"
    using a_cat_valid by simp
  have msg: "or_else (thrown_message ?e) ?fallback = lit ''network down''"
    by (simp add: or_else_def thrown_message_def lit_def)
  have shown: "isValid default_options ?st"
    by (simp add: isValid_def validatePrompt_def default_options_def first_issue_def
        ClientFormSchema_def trim_def isWhiteSpace_def lit_def)
  from generateImage_retries_bounded[OF limit, of network_down ?st]
  obtain res n where res: "useImageGeneration_generateImage default_options network_down ?st
                           = Some res"
    and tms: "timeouts (snd res) = map backoff [0..<n]"
    and whole: "\<forall>m. maxRetries default_options = Number (of_nat m) \<longrightarrow> n \<le> m"
    and fin: "\<forall>e. (validateInput default_options \<longrightarrow>
            first_issue (trim (inputValue ?st)) (lit ''Please provide a valid prompt'') = None) \<and>
          fetch_try (network_down n) (trim (inputValue ?st)) = Inl e \<longrightarrow>
        (\<not> lt_number n (maxRetries default_options) \<or>
         \<not> (str_includes (thrown_message e) (lit ''network'') \<or>
            str_includes (thrown_message e) (lit ''timeout'') \<or>
            str_includes (thrown_message e) (lit ''503'') \<or>
            str_includes (thrown_message e) (lit ''502''))) \<and>
        (\<exists>tr. snd res =
           tr @ [SetState
                   (errorState (new_request (network_down n) (trim (inputValue ?st)))
                      (or_else (thrown_message e) ?fallback)
                      (loadingState (new_request (network_down n) (trim (inputValue ?st))) ?st)),
                 OnError (or_else (thrown_message e) ?fallback)]
              @ (if isValid default_options ?st
                 then [SetState (clearError
                   (errorState (new_request (network_down n) (trim (inputValue ?st)))
                      (or_else (thrown_message e) ?fallback)
                      (loadingState (new_request (network_down n) (trim (inputValue ?st))) ?st)))]
                 else [])) \<and>
        fst res =
          (if isValid default_options ?st
           then clearError
                  (errorState (new_request (network_down n) (trim (inputValue ?st)))
                     (or_else (thrown_message e) ?fallback)
                     (loadingState (new_request (network_down n) (trim (inputValue ?st))) ?st))
           else errorState (new_request (network_down n) (trim (inputValue ?st)))
                  (or_else (thrown_message e) ?fallback)
                  (loadingState (new_request (network_down n) (trim (inputValue ?st))) ?st))"
    by (elim exE conjE)
  from fin valid network_down_fails[of n "trim (inputValue ?st)"] have
    last: "\<not> lt_number n (maxRetries default_options) \<or>
         \<not> (str_includes (thrown_message ?e) (lit ''network'') \<or>
            str_includes (thrown_message ?e) (lit ''timeout'') \<or>
            str_includes (thrown_message ?e) (lit ''503'') \<or>
            str_includes (thrown_message ?e) (lit ''502''))"
    and events: "\<exists>tr. snd res =
           tr @ [SetState
                   (errorState (new_request (network_down n) (trim (inputValue ?st)))
                      (or_else (thrown_message ?e) ?fallback)
                      (loadingState (new_request (network_down n) (trim (inputValue ?st))) ?st)),
                 OnError (or_else (thrown_message ?e) ?fallback)]
              @ (if isValid default_options ?st
                 then [SetState (clearError
                   (errorState (new_request (network_down n) (trim (inputValue ?st)))
                      (or_else (thrown_message ?e) ?fallback)
                      (loadingState (new_request (network_down n) (trim (inputValue ?st))) ?st)))]
                 else [])"
    and state: "fst res =
          (if isValid default_options ?st
           then clearError
                  (errorState (new_request (network_down n) (trim (inputValue ?st)))
                     (or_else (thrown_message ?e) ?fallback)
                     (loadingState (new_request (network_down n) (trim (inputValue ?st))) ?st))
           else errorState (new_request (network_down n) (trim (inputValue ?st)))
                  (or_else (thrown_message ?e) ?fallback)
                  (loadingState (new_request (network_down n) (trim (inputValue ?st))) ?st))"
    by blast+
  from last network_down_transient have "\<not> lt_number n (Number 3)"
    by (simp add: default_options_def)
  then have "3 \<le> n" by simp
  moreover from whole three have "n \<le> 3" by blast
  ultimately have n3: "n = 3" by simp
  have "[0..<3] = [0, 1, 2]" by (simp add: upt_rec)
  with tms n3 have t: "timeouts (snd res) = [Number 1000, Number 2000, Number 4000]"
    by (simp add: backoff_def)
  from state shown have s: "\<not> isLoading (fst res)" "ui_error (fst res) = None"
    "map_option req_status (currentRequest (fst res)) = Some Error"
    by (simp_all add: errorState_def clearError_def)
  from events msg have ev: "OnError (lit ''network down'') \<in> set (snd res)"
    by auto
  show ?thesis
    using limit res t s ev by simp
qed


section \<open>One result at a time\<close>

lemma fetch_try_prompt:
  assumes "fetch_try a p = Inr img"
  shows "img_prompt img = p"
  using assms by (auto simp: fetch_try_def split: fetch_outcome.splits if_splits)

lemma hook_success:
  assumes "first_issue (trim p) (lit ''Please provide a valid prompt'') = None"
    and "fetch_try (env 0) (trim p) = Inr img"
  shows "useImageGeneration_generateImage opts env (setInputValue opts p st) =
           Some (successState (new_request (env 0) (trim p)) img (setInputValue opts p st),
            [SetState (loadingState (new_request (env 0) (trim p)) (setInputValue opts p st)),
             Fetch (trim p) (lit ''gemini-2.5-flash-image-preview''),
             SetState (successState (new_request (env 0) (trim p)) img (setInputValue opts p st)),
             OnSuccess img])"
proof -
  have i: "inputValue (setInputValue opts p st) = p" by (simp add: setInputValue_def)
  have v: "validateInput opts \<longrightarrow>
             first_issue (trim p) (lit ''Please provide a valid prompt'') = None"
    using assms(1) by simp
  show ?thesis
    unfolding useImageGeneration_generateImage_def i
    by (simp add: generateImage_success[where env=env and rc=0, OF v assms(2)]
        emit_def setState_def successState_def loadingState_def)
qed

lemma component_success:
  assumes "first_issue (trim p) (lit ''Please provide a valid prompt'') = None"
    and "fetch_try a (trim p) = Inr img"
  shows "ImageGenerator_generateImage a (handleInputChange p st) =
           (successState (new_request a (trim p)) img (handleInputChange p st),
            [SetState (loadingState (new_request a (trim p)) (handleInputChange p st)),
             Fetch (trim p) (lit ''gemini-2.5-flash-image-preview''),
             SetState (successState (new_request a (trim p)) img (handleInputChange p st))])"
proof -
  have i: "inputValue (handleInputChange p st) = p" by (simp add: handleInputChange_def)
  show ?thesis
    using assms
    by (simp add: ImageGenerator_generateImage_def i Let_def emit_def setState_def
        successState_def loadingState_def)
qed

text \<open>
  C9. The UI state holds its result in the one nullable field \<open>generatedImage\<close>. Take two
  generations in sequence, with any two prompts, each succeeding at its first fetch, in
  the hook and in the component alike. After the first the field holds exactly the first
  image; the second generation sets the field to null in the state update that comes
  before its fetch, and after it the field holds exactly the second image, whose prompt
  is the second prompt, trimmed.
\<close>

theorem sequential_generations_replace:
  assumes v1: "first_issue (trim p1) (lit ''Please provide a valid prompt'') = None"
    and v2: "first_issue (trim p2) (lit ''Please provide a valid prompt'') = None"
    and ok1: "fetch_try (env1 0) (trim p1) = Inr img1"
    and ok2: "fetch_try (env2 0) (trim p2) = Inr img2"
  shows "(\<exists>run1 run2.
            useImageGeneration_generateImage opts env1 (setInputValue opts p1 st0) = Some run1 \<and>
            useImageGeneration_generateImage opts env2 (setInputValue opts p2 (fst run1))
              = Some run2 \<and>
            generatedImage (fst run1) = Some img1 \<and> img_prompt img1 = trim p1 \<and>
            generatedImage (fst run2) = Some img2 \<and> img_prompt img2 = trim p2 \<and>
            (\<exists>s. snd run2 = [SetState s, Fetch (trim p2) (lit ''gemini-2.5-flash-image-preview''),
                               SetState (fst run2), OnSuccess img2] \<and>
                 generatedImage s = None)) \<and>
         (let run1 = ImageGenerator_generateImage (env1 0) (handleInputChange p1 st0);
              run2 = ImageGenerator_generateImage (env2 0) (handleInputChange p2 (fst run1))
          in generatedImage (fst run1) = Some img1 \<and> img_prompt img1 = trim p1 \<and>
             generatedImage (fst run2) = Some img2 \<and> img_prompt img2 = trim p2 \<and>
             (\<exists>s. snd run2 = [SetState s, Fetch (trim p2) (lit ''gemini-2.5-flash-image-preview''),
                                SetState (fst run2)] \<and>
                  generatedImage s = None))"
  by (simp add: hook_success[where env=env1, OF v1 ok1] hook_success[where env=env2, OF v2 ok2]
      component_success[OF v1 ok1] component_success[OF v2 ok2]
      fetch_try_prompt[OF ok1] fetch_try_prompt[OF ok2] successState_def loadingState_def)

theorem sequential_generations_replace_witness:
  "first_issue (trim (lit '' a red fox '')) (lit ''Please provide a valid prompt'') = None \<and>
   first_issue (trim (lit ''two owls'')) (lit ''Please provide a valid prompt'') = None \<and>
   fetch_try (responding (lit ''a red fox'') 0) (trim (lit '' a red fox ''))
     = Inr (responded_image (lit ''a red fox'') (lit ''a red fox'')) \<and>
   fetch_try (responding (lit ''two owls'') 0) (trim (lit ''two owls''))
     = Inr (responded_image (lit ''two owls'') (lit ''two owls'')) \<and>
   (\<exists>run1 run2.
      useImageGeneration_generateImage default_options (responding (lit ''a red fox''))
        (setInputValue default_options (lit '' a red fox '') initialState) = Some run1 \<and>
      useImageGeneration_generateImage default_options (responding (lit ''two owls''))
        (setInputValue default_options (lit ''two owls'') (fst run1)) = Some run2 \<and>
      generatedImage (fst run1) = Some (responded_image (lit ''a red fox'') (lit ''a red fox'')) \<and>
      generatedImage (fst run2) = Some (responded_image (lit ''two owls'') (lit ''two owls''))) \<and>
   generatedImage
     (fst (ImageGenerator_generateImage (responding (lit ''two owls'') 0)
        (handleInputChange (lit ''two owls'')
           (fst (ImageGenerator_generateImage (responding (lit ''a red fox'') 0)
              (handleInputChange (lit '' a red fox '') initialState))))))
     = Some (responded_image (lit ''two owls'') (lit ''two owls''))"
proof -
  have t1: "trim (lit '' a red fox '') = lit ''a red fox''"
    by (simp add: trim_def isWhiteSpace_def lit_def)
  have t2: "trim (lit ''two owls'') = lit ''two owls''"
    by (simp add: trim_def isWhiteSpace_def lit_def)
  have v1: "first_issue (trim (lit '' a red fox '')) (lit ''Please provide a valid prompt'') = None"
    unfolding t1
    by (simp add: first_issue_def ClientFormSchema_def trim_def isWhiteSpace_def lit_def)
  have v2: "first_issue (trim (lit ''two owls'')) (lit ''Please provide a valid prompt'') = None"
    unfolding t2
    by (simp add: first_issue_def ClientFormSchema_def trim_def isWhiteSpace_def lit_def)
  have ok1: "fetch_try (responding (lit ''a red fox'') 0) (trim (lit '' a red fox ''))
     = Inr (responded_image (lit ''a red fox'') (lit ''a red fox''))"
    unfolding t1 by (simp add: fetch_try_def responding_def responded_image_def ok_def)
  have ok2: "fetch_try (responding (lit ''two owls'') 0) (trim (lit ''two owls''))
     = Inr (responded_image (lit ''two owls'') (lit ''two owls''))"
    unfolding t2 by (simp add: fetch_try_def responding_def responded_image_def ok_def)
  from sequential_generations_replace[where ?env1.0 = "responding (lit ''a red fox'')"
        and ?env2.0 = "responding (lit ''two owls'')", OF v1 v2 ok1 ok2,
        of default_options initialState]
  have hook: "\<exists>run1 run2.
      useImageGeneration_generateImage default_options (responding (lit ''a red fox''))
        (setInputValue default_options (lit '' a red fox '') initialState) = Some run1 \<and>
      useImageGeneration_generateImage default_options (responding (lit ''two owls''))
        (setInputValue default_options (lit ''two owls'') (fst run1)) = Some run2 \<and>
      generatedImage (fst run1) = Some (responded_image (lit ''a red fox'') (lit ''a red fox'')) \<and>
      generatedImage (fst run2) = Some (responded_image (lit ''two owls'') (lit ''two owls''))"
    and component: "generatedImage
     (fst (ImageGenerator_generateImage (responding (lit ''two owls'') 0)
        (handleInputChange (lit ''two owls'')
           (fst (ImageGenerator_generateImage (responding (lit ''a red fox'') 0)
              (handleInputChange (lit '' a red fox '') initialState))))))
     = Some (responded_image (lit ''two owls'') (lit ''two owls''))"
    by (auto simp: Let_def)
  from v1 v2 ok1 ok2 hook component show ?thesis by (intro conjI)
qed

end
